theory Spec2Isabelle
  imports Main "HOL-Library.AList"
begin

section \<open>Option values\<close>

text \<open>
  The launch blueprint (\<^verbatim>\<open>packages/blueprints/launch-blueprint/src/blueprint.ts\<close>) binds
  option values into the actions of a workflow document. The embedding follows the
  TypeScript declarations: a document is well typed (an identifier and an override
  string are strings, \<^verbatim>\<open>Inputs.Variables\<close> is an array), while the \<^verbatim>\<open>value\<close> of an option
  is \<^verbatim>\<open>any\<close> and is modelled by a datatype of JavaScript values. Strings are lists of
  characters; the two separators of the override string are single characters.

  \<^verbatim>\<open>mapParametersToAction\<close> is modelled twice. The first model is a function on the value
  of one action, and the walk on the value of a document, a tree; it describes a
  document whose objects are not shared. The second model keeps the objects the code
  writes to in a store, so that an alias of the document is the same object as its
  anchor, and runs the two loops of \<^verbatim>\<open>synth\<close> on the store.
\<close>

text \<open>
  Modelled from the spec: the types \<^verbatim>\<open>EnvironmentDefinition\<close>, \<^verbatim>\<open>AccountConnection\<close> and
  \<^verbatim>\<open>Role\<close> are imported from a package outside the source file. An environment
  definition has a name and zero or one account connection; an account connection has a
  name and zero or one launch role; a role has a name. An empty connection name stands
  for a connection without a name.
\<close>

record role =
  roleName :: string

record account_connection =
  connectionName :: string
  launchRole :: "role option"

record environment_definition =
  environmentName :: string
  awsAccountConnection :: "account_connection option"

text \<open>
  Modelled from the spec: \<^verbatim>\<open>DynamicKVInput\<close> (the element type of \<^verbatim>\<open>KVSchema\<close>) is
  declared outside the source file; the code reads its \<^verbatim>\<open>key\<close>, \<^verbatim>\<open>value\<close> and
  \<^verbatim>\<open>displayType\<close>. A value is a scalar, an environment definition or, where the code
  passes an entry itself around, the entry object. \<^verbatim>\<open>JNum n\<close> stands for the number \<^verbatim>\<open>n\<close>
  where \<^verbatim>\<open>n\<close> is an integer of magnitude below \<^verbatim>\<open>2^53\<close>, which JavaScript holds exactly
  and prints as a decimal numeral; fractions, \<^verbatim>\<open>NaN\<close>, the infinities and larger numbers
  (printed with an exponent from \<^verbatim>\<open>1e21\<close> on) are outside the model.
\<close>

datatype jsval =
    JUndefined
  | JNull
  | JBool bool
  | JNum int
  | JStr string
  | JEnv environment_definition
  | JInput dynamic_kv
and dynamic_kv =
    DynamicKVInput (key: string) (val: jsval) (displayType: "string option")

record options =
  launchOptions :: "dynamic_kv list option"
  parameters :: "dynamic_kv list"
  environments :: "environment_definition list"

definition OPTIONS_PREFIX :: string where
  "OPTIONS_PREFIX = ''LAUNCH_OPTIONS_''"

subsection \<open>JavaScript operators on values\<close>

fun nullish :: "jsval \<Rightarrow> bool" where
  "nullish JUndefined = True"
| "nullish JNull = True"
| "nullish _ = False"

text \<open>\<^verbatim>\<open>a ?? b\<close>\<close>

definition coalesce :: "jsval \<Rightarrow> jsval \<Rightarrow> jsval" where
  "coalesce a b = (if nullish a then b else a)"

text \<open>The truth value of a value in a condition.\<close>

fun truthy :: "jsval \<Rightarrow> bool" where
  "truthy JUndefined = False"
| "truthy JNull = False"
| "truthy (JBool b) = b"
| "truthy (JNum n) = (n \<noteq> 0)"
| "truthy (JStr s) = (s \<noteq> [])"
| "truthy (JEnv e) = True"
| "truthy (JInput p) = True"

fun natDigits :: "nat \<Rightarrow> string" where
  "natDigits n =
     (if n < 10 then [''0123456789'' ! n]
      else natDigits (n div 10) @ [''0123456789'' ! (n mod 10)])"

declare natDigits.simps [simp del]

definition intString :: "int \<Rightarrow> string" where
  "intString i = (if i < 0 then CHR ''-'' # natDigits (nat (- i)) else natDigits (nat i))"

text \<open>
  The string form of a value, as a template literal and (away from \<^verbatim>\<open>null\<close> and
  \<^verbatim>\<open>undefined\<close>) \<^verbatim>\<open>toString()\<close> give it.
\<close>

fun toString :: "jsval \<Rightarrow> string" where
  "toString JUndefined = ''undefined''"
| "toString JNull = ''null''"
| "toString (JBool b) = (if b then ''true'' else ''false'')"
| "toString (JNum n) = intString n"
| "toString (JStr s) = s"
| "toString (JEnv e) = ''[object Object]''"
| "toString (JInput p) = ''[object Object]''"

text \<open>\<^verbatim>\<open>xs?.find(P)\<close> as a value: the entry object, or \<^verbatim>\<open>undefined\<close>.\<close>

definition findEntry :: "(dynamic_kv \<Rightarrow> bool) \<Rightarrow> dynamic_kv list option \<Rightarrow> jsval" where
  "findEntry P xs =
     (case xs of
        None \<Rightarrow> JUndefined
      | Some l \<Rightarrow> (case find P l of None \<Rightarrow> JUndefined | Some e \<Rightarrow> JInput e))"

text \<open>\<^verbatim>\<open>xs?.find(P)?.value\<close>\<close>

definition findValue :: "(dynamic_kv \<Rightarrow> bool) \<Rightarrow> dynamic_kv list option \<Rightarrow> jsval" where
  "findValue P xs =
     (case xs of
        None \<Rightarrow> JUndefined
      | Some l \<Rightarrow> (case find P l of None \<Rightarrow> JUndefined | Some e \<Rightarrow> val e))"

text \<open>\<^verbatim>\<open>s.startsWith(p)\<close>\<close>

definition startsWith :: "string \<Rightarrow> string \<Rightarrow> bool" where
  "startsWith s p = (take (length p) s = p)"

text \<open>
  \<^verbatim>\<open>s.split(c)\<close> for a one-character separator: the pieces between the separators, so
  that the empty string splits into one empty piece.
\<close>

fun split :: "char \<Rightarrow> string \<Rightarrow> string list" where
  "split c [] = [[]]"
| "split c (x # xs) =
     (if x = c then [] # split c xs
      else (case split c xs of
              [] \<Rightarrow> [[x]]
            | w # ws \<Rightarrow> (x # w) # ws))"

section \<open>The workflow document\<close>

record input_variable =
  Name :: string
  Value :: jsval

record inputs =
  Variables :: "input_variable list option"

record connection_definition =
  ConnName :: string
  Role :: string

record workflow_environment =
  EnvName :: string
  Connections :: "connection_definition list option"

text \<open>
  An action, with the fields the code reads or writes. An object with string keys is a
  list of pairs in insertion order, each key once.
\<close>

datatype action =
  Action (Identifier: "string option")
         (Inputs: "inputs option")
         (Environment: "workflow_environment option")
         (Configuration: "(string \<times> string) list option")
         (Actions: "(string \<times> action) list option")

record workflow_definition =
  WfActions :: "(string \<times> action) list option"

fun setInputs :: "inputs option \<Rightarrow> action \<Rightarrow> action" where
  "setInputs v (Action i inp e c a) = Action i v e c a"

fun setEnvironment :: "workflow_environment option \<Rightarrow> action \<Rightarrow> action" where
  "setEnvironment v (Action i inp e c a) = Action i inp v c a"

fun setConfiguration :: "(string \<times> string) list option \<Rightarrow> action \<Rightarrow> action" where
  "setConfiguration v (Action i inp e c a) = Action i inp e v a"

fun setActions :: "(string \<times> action) list option \<Rightarrow> action \<Rightarrow> action" where
  "setActions v (Action i inp e c a) = Action i inp e c v"

section \<open>mapParametersToAction\<close>

subsection \<open>Variables\<close>

definition specifiedValue :: "options \<Rightarrow> string \<Rightarrow> jsval" where
  "specifiedValue opts optionName =
     coalesce
       (findValue (\<lambda>option. key option = optionName) (launchOptions opts))
       (findValue (\<lambda>parameter. OPTIONS_PREFIX @ key parameter = optionName)
          (Some (parameters opts)))"

definition mapVariable :: "options \<Rightarrow> input_variable \<Rightarrow> input_variable" where
  "mapVariable opts variable =
     (let v = specifiedValue opts (Name variable)
      in if truthy v then variable\<lparr>Value := JStr (toString v)\<rparr> else variable)"

definition mapVariables :: "options \<Rightarrow> action \<Rightarrow> action" where
  "mapVariables opts action =
     (case Inputs action of
        None \<Rightarrow> action
      | Some inp \<Rightarrow>
          (case Variables inp of
             None \<Rightarrow> action
           | Some variables \<Rightarrow>
               setInputs (Some (inp\<lparr>Variables := Some (map (mapVariable opts) variables)\<rparr>))
                 action))"

subsection \<open>Environments\<close>

text \<open>\<^verbatim>\<open>v?.name\<close>, \<^verbatim>\<open>v?.awsAccountConnection\<close> of a value.\<close>

fun valueName :: "jsval \<Rightarrow> string option" where
  "valueName (JEnv e) = Some (environmentName e)"
| "valueName _ = None"

fun valueConnection :: "jsval \<Rightarrow> account_connection option" where
  "valueConnection (JEnv e) = awsAccountConnection e"
| "valueConnection _ = None"

definition launchEnvironment :: "options \<Rightarrow> string \<Rightarrow> jsval" where
  "launchEnvironment opts name =
     coalesce
       (findValue
          (\<lambda>option. displayType option = Some ''environment''
                     \<and> valueName (val option) = Some name)
          (launchOptions opts))
       (case find (\<lambda>env. environmentName env = name) (environments opts) of
          None \<Rightarrow> JUndefined
        | Some env \<Rightarrow> JEnv env)"

definition connectionBinding :: "account_connection \<Rightarrow> connection_definition" where
  "connectionBinding connection =
     \<lparr>ConnName = connectionName connection,
      Role = (case launchRole connection of
                None \<Rightarrow> ''No role selected''
              | Some r \<Rightarrow> roleName r)\<rparr>"

definition mapEnvironment :: "options \<Rightarrow> action \<Rightarrow> action" where
  "mapEnvironment opts action =
     (case Environment action of
        None \<Rightarrow> action
      | Some actionEnvironment \<Rightarrow>
          if EnvName actionEnvironment \<noteq> [] then
            (case valueConnection (launchEnvironment opts (EnvName actionEnvironment)) of
               None \<Rightarrow> action
             | Some connection \<Rightarrow>
                 if connectionName connection \<noteq> [] then
                   setEnvironment
                     (Some (actionEnvironment\<lparr>Connections :=
                              Some [connectionBinding connection]\<rparr>))
                     action
                 else action)
          else action)"

subsection \<open>Parameter overrides\<close>

text \<open>
  A parsed tuple: \<^verbatim>\<open>{ key: tuple[0], value: tuple[1] }\<close>. A split has at least one
  piece, so the key is a string; the value is \<^verbatim>\<open>undefined\<close> when there is no second piece,
  and a third piece is dropped.
\<close>

record parameter =
  pkey :: string
  pvalue :: jsval

definition parseTuple :: "string \<Rightarrow> parameter" where
  "parseTuple p =
     (let tuple = split (CHR ''='') p
      in \<lparr>pkey = hd tuple,
          pvalue = (if 1 < length tuple then JStr (tuple ! 1) else JUndefined)\<rparr>)"

definition resolveOverride :: "options \<Rightarrow> string \<Rightarrow> jsval" where
  "resolveOverride opts k =
     coalesce
       (findValue (\<lambda>option. key option = k) (launchOptions opts))
       (findEntry (\<lambda>option. OPTIONS_PREFIX @ key option = k) (Some (parameters opts)))"

definition emitParameter :: "options \<Rightarrow> parameter \<Rightarrow> string" where
  "emitParameter opts parameter =
     pkey parameter @ ''=''
       @ toString (coalesce (resolveOverride opts (pkey parameter)) (pvalue parameter))
       @ '',''"

definition newOverrides :: "options \<Rightarrow> string \<Rightarrow> string" where
  "newOverrides opts overrides =
     foldl (\<lambda>acc parameter. acc @ emitParameter opts parameter) []
       (map parseTuple (split (CHR '','') overrides))"

definition isDeploy :: "action \<Rightarrow> bool" where
  "isDeploy action =
     (case Identifier action of
        None \<Rightarrow> False
      | Some identifier \<Rightarrow> startsWith identifier ''aws/cfn-deploy@'')"

definition mapOverrides :: "options \<Rightarrow> action \<Rightarrow> action" where
  "mapOverrides opts action =
     (if isDeploy action then
        (case Configuration action of
           None \<Rightarrow> action
         | Some configuration \<Rightarrow>
             (case map_of configuration ''parameter-overrides'' of
                None \<Rightarrow> action
              | Some overrides \<Rightarrow>
                  if overrides \<noteq> [] then
                    (let new = newOverrides opts overrides
                     in if new \<noteq> [] then
                          setConfiguration
                            (Some (AList.update ''parameter-overrides'' (butlast new)
                                     configuration))
                            action
                        else action)
                  else action))
      else action)"

definition mapParametersToAction :: "options \<Rightarrow> action \<Rightarrow> action" where
  "mapParametersToAction opts action =
     mapOverrides opts (mapEnvironment opts (mapVariables opts action))"

section \<open>The walk over a workflow in synth\<close>

definition mapChildActions :: "options \<Rightarrow> action \<Rightarrow> action" where
  "mapChildActions opts action =
     (case Actions action of
        None \<Rightarrow> action
      | Some children \<Rightarrow>
          setActions
            (Some (map (\<lambda>(childActionName, childAction).
                          (childActionName, mapParametersToAction opts childAction))
                     children))
            action)"

definition mapWorkflow :: "options \<Rightarrow> workflow_definition \<Rightarrow> workflow_definition" where
  "mapWorkflow opts workflow =
     (case WfActions workflow of
        None \<Rightarrow> workflow
      | Some actions \<Rightarrow>
          workflow\<lparr>WfActions :=
            Some (map (\<lambda>(actionName, action).
                         (actionName, mapChildActions opts (mapParametersToAction opts action)))
                    actions)\<rparr>)"

section \<open>Notions used by the properties\<close>

text \<open>\<^verbatim>\<open>launchOptions ?? []\<close> and \<^verbatim>\<open>Inputs?.Variables ?? []\<close>.\<close>

definition optionList :: "options \<Rightarrow> dynamic_kv list" where
  "optionList opts = (case launchOptions opts of None \<Rightarrow> [] | Some l \<Rightarrow> l)"

definition variablesOf :: "action \<Rightarrow> input_variable list" where
  "variablesOf action =
     (case Inputs action of
        None \<Rightarrow> []
      | Some inp \<Rightarrow> (case Variables inp of None \<Rightarrow> [] | Some variables \<Rightarrow> variables))"

text \<open>A name is the key of a launch-options entry; it is the namespaced key of a legacy parameter.\<close>

definition matchesOption :: "options \<Rightarrow> string \<Rightarrow> bool" where
  "matchesOption opts k = (\<exists>option \<in> set (optionList opts). key option = k)"

definition matchesParameter :: "options \<Rightarrow> string \<Rightarrow> bool" where
  "matchesParameter opts k =
     (\<exists>parameter \<in> set (parameters opts). OPTIONS_PREFIX @ key parameter = k)"

text \<open>
  An environment name has a definition: an environment entry of the launch options, or a
  legacy environment.
\<close>

definition matchesEnvironment :: "options \<Rightarrow> string \<Rightarrow> bool" where
  "matchesEnvironment opts name =
     ((\<exists>option \<in> set (optionList opts).
          displayType option = Some ''environment'' \<and> valueName (val option) = Some name)
      \<or> (\<exists>env \<in> set (environments opts). environmentName env = name))"

text \<open>The node of a document at a path of action names, from a top-level action down.\<close>

definition childAction :: "action \<Rightarrow> string \<Rightarrow> action option" where
  "childAction action name =
     (case Actions action of None \<Rightarrow> None | Some children \<Rightarrow> map_of children name)"

fun descend :: "action \<Rightarrow> string list \<Rightarrow> action option" where
  "descend action [] = Some action"
| "descend action (name # names) =
     (case childAction action name of
        None \<Rightarrow> None
      | Some child \<Rightarrow> descend child names)"

definition nodeAt :: "workflow_definition \<Rightarrow> string list \<Rightarrow> action option" where
  "nodeAt workflow path =
     (case path of
        [] \<Rightarrow> None
      | name # names \<Rightarrow>
          (case WfActions workflow of
             None \<Rightarrow> None
           | Some actions \<Rightarrow>
               (case map_of actions name of
                  None \<Rightarrow> None
                | Some action \<Rightarrow> descend action names)))"

text \<open>The fields of a node itself, without its child actions.\<close>

definition ownFields ::
  "action \<Rightarrow> string option \<times> inputs option \<times> workflow_environment option
     \<times> (string \<times> string) list option" where
  "ownFields action =
     (Identifier action, Inputs action, Environment action, Configuration action)"

section \<open>Example inputs\<close>

definition exOptions :: options where
  "exOptions =
     \<lparr>launchOptions = Some
        [DynamicKVInput ''stage'' (JStr ''prod'') None,
         DynamicKVInput ''LAUNCH_OPTIONS_region'' (JStr ''eu-west-1'') None,
         DynamicKVInput ''retries'' (JNum 0) None,
         DynamicKVInput ''production''
           (JEnv \<lparr>environmentName = ''production'',
                  awsAccountConnection =
                    Some \<lparr>connectionName = ''main-account'', launchRole = None\<rparr>\<rparr>)
           (Some ''environment''),
         DynamicKVInput ''staging''
           (JEnv \<lparr>environmentName = ''staging'', awsAccountConnection = None\<rparr>)
           (Some ''environment'')],
      parameters =
        [DynamicKVInput ''region'' (JStr ''us-east-1'') None,
         DynamicKVInput ''tag'' (JStr ''v1'') None],
      environments =
        [\<lparr>environmentName = ''beta'',
          awsAccountConnection =
            Some \<lparr>connectionName = ''beta-account'',
                  launchRole = Some \<lparr>roleName = ''deployer''\<rparr>\<rparr>\<rparr>]\<rparr>"

text \<open>A launch option whose value is \<^verbatim>\<open>null\<close>, beside a legacy parameter of the same name.\<close>

definition exNullOptions :: options where
  "exNullOptions =
     \<lparr>launchOptions = Some [DynamicKVInput ''LAUNCH_OPTIONS_region'' JNull None],
      parameters = [DynamicKVInput ''region'' (JStr ''us-east-1'') None],
      environments = []\<rparr>"

definition exDeep :: action where
  "exDeep =
     Action (Some ''aws/build@v1'')
       (Some \<lparr>Variables = Some [\<lparr>Name = ''stage'', Value = JStr ''dev''\<rparr>]\<rparr>)
       None None None"

definition exTest :: action where
  "exTest =
     Action (Some ''aws/managed-test@v1'')
       (Some \<lparr>Variables = Some [\<lparr>Name = ''stage'', Value = JStr ''dev''\<rparr>]\<rparr>)
       (Some \<lparr>EnvName = ''staging'',
              Connections = Some [\<lparr>ConnName = ''old'', Role = ''old-role''\<rparr>]\<rparr>)
       None
       (Some [(''Deep'', exDeep)])"

definition exBuild :: action where
  "exBuild =
     Action (Some ''aws/build@v1'')
       (Some \<lparr>Variables = Some
          [\<lparr>Name = ''stage'', Value = JStr ''dev''\<rparr>,
           \<lparr>Name = ''other'', Value = JStr ''keep''\<rparr>,
           \<lparr>Name = ''retries'', Value = JStr ''3''\<rparr>]\<rparr>)
       (Some \<lparr>EnvName = ''unknown'',
              Connections = Some [\<lparr>ConnName = ''old'', Role = ''old-role''\<rparr>]\<rparr>)
       (Some [(''parameter-overrides'', ''stage=dev'')])
       (Some [(''Test'', exTest)])"

definition exDeploy :: action where
  "exDeploy =
     Action (Some ''aws/cfn-deploy@v1'')
       None
       (Some \<lparr>EnvName = ''production'',
              Connections = Some [\<lparr>ConnName = ''old'', Role = ''old-role''\<rparr>,
                                  \<lparr>ConnName = ''older'', Role = ''older-role''\<rparr>]\<rparr>)
       (Some [(''template'', ''stack.yml''),
              (''parameter-overrides'', ''stage=dev,LAUNCH_OPTIONS_tag=x,flag'')])
       None"

text \<open>A deploy action in the legacy environment \<^verbatim>\<open>beta\<close>, which has a connection with a role.\<close>

definition exBetaDeploy :: action where
  "exBetaDeploy =
     Action (Some ''aws/cfn-deploy@v1'')
       None
       (Some \<lparr>EnvName = ''beta'',
              Connections = Some [\<lparr>ConnName = ''old'', Role = ''old-role''\<rparr>,
                                  \<lparr>ConnName = ''older'', Role = ''older-role''\<rparr>]\<rparr>)
       None
       None"

definition exDoc :: workflow_definition where
  "exDoc = \<lparr>WfActions = Some [(''Build'', exBuild), (''Deploy'', exDeploy)]\<rparr>"

text \<open>Deploy actions whose override keys match no option: well formed, and with a second \<^verbatim>\<open>=\<close>.\<close>

definition exPlainDeploy :: action where
  "exPlainDeploy =
     Action (Some ''aws/cfn-deploy@v1'') None None
       (Some [(''parameter-overrides'', ''size=small,zone=a'')]) None"

definition exMalformedDeploy :: action where
  "exMalformedDeploy =
     Action (Some ''aws/cfn-deploy@v1'') None None
       (Some [(''parameter-overrides'', ''a=b=c'')]) None"

section \<open>The document as objects in a store\<close>

text \<open>
  \<^verbatim>\<open>yaml.parse\<close> returns objects, and an alias of the document is the same object as its
  anchor. \<^verbatim>\<open>mapParametersToAction\<close> writes to three kinds of object: a variable (its
  \<^verbatim>\<open>Value\<close>), an Environment (its \<^verbatim>\<open>Connections\<close>) and a Configuration (its
  \<^verbatim>\<open>parameter-overrides\<close>). A store holds these objects at references, and a node is an
  action whose variables, Environment and Configuration are references, so that nodes
  may share them; an aliased action is a node with the references of its anchor. The
  other parts of an action are only read and stay in the node.
\<close>

type_synonym ref = nat

record store =
  variableAt :: "ref \<Rightarrow> input_variable"
  environmentAt :: "ref \<Rightarrow> workflow_environment"
  configurationAt :: "ref \<Rightarrow> (string \<times> string) list"

datatype node =
  Node (nodeIdentifier: "string option")
       (nodeVariables: "ref list option")
       (nodeEnvironment: "ref option")
       (nodeConfiguration: "ref option")
       (nodeActions: "(string \<times> node) list option")

text \<open>\<^verbatim>\<open>Inputs?.Variables ?? []\<close> and \<^verbatim>\<open>Actions ?? []\<close> of a node.\<close>

definition nodeVariableRefs :: "node \<Rightarrow> ref list" where
  "nodeVariableRefs action = (case nodeVariables action of None \<Rightarrow> [] | Some refs \<Rightarrow> refs)"

definition nodeChildren :: "node \<Rightarrow> (string \<times> node) list" where
  "nodeChildren action = (case nodeActions action of None \<Rightarrow> [] | Some children \<Rightarrow> children)"

text \<open>The write to one variable object (lines 187 to 193).\<close>

definition storeVariable :: "options \<Rightarrow> store \<Rightarrow> ref \<Rightarrow> store" where
  "storeVariable opts s r =
     s\<lparr>variableAt := (variableAt s)(r := mapVariable opts (variableAt s r))\<rparr>"

definition storeVariables :: "options \<Rightarrow> node \<Rightarrow> store \<Rightarrow> store" where
  "storeVariables opts action s = foldl (storeVariable opts) s (nodeVariableRefs action)"

text \<open>The Environment object after lines 198 to 216.\<close>

definition bindEnvironment :: "options \<Rightarrow> workflow_environment \<Rightarrow> workflow_environment" where
  "bindEnvironment opts actionEnvironment =
     (if EnvName actionEnvironment \<noteq> [] then
        (case valueConnection (launchEnvironment opts (EnvName actionEnvironment)) of
           None \<Rightarrow> actionEnvironment
         | Some connection \<Rightarrow>
             if connectionName connection \<noteq> [] then
               actionEnvironment\<lparr>Connections := Some [connectionBinding connection]\<rparr>
             else actionEnvironment)
      else actionEnvironment)"

definition storeEnvironment :: "options \<Rightarrow> node \<Rightarrow> store \<Rightarrow> store" where
  "storeEnvironment opts action s =
     (case nodeEnvironment action of
        None \<Rightarrow> s
      | Some r \<Rightarrow>
          s\<lparr>environmentAt := (environmentAt s)(r := bindEnvironment opts (environmentAt s r))\<rparr>)"

text \<open>The Configuration object after lines 220 to 239.\<close>

definition rewriteConfiguration ::
  "options \<Rightarrow> (string \<times> string) list \<Rightarrow> (string \<times> string) list" where
  "rewriteConfiguration opts configuration =
     (case map_of configuration ''parameter-overrides'' of
        None \<Rightarrow> configuration
      | Some overrides \<Rightarrow>
          if overrides \<noteq> [] then
            (let new = newOverrides opts overrides
             in if new \<noteq> [] then
                  AList.update ''parameter-overrides'' (butlast new) configuration
                else configuration)
          else configuration)"

definition isDeployNode :: "node \<Rightarrow> bool" where
  "isDeployNode action =
     (case nodeIdentifier action of
        None \<Rightarrow> False
      | Some identifier \<Rightarrow> startsWith identifier ''aws/cfn-deploy@'')"

definition storeOverrides :: "options \<Rightarrow> node \<Rightarrow> store \<Rightarrow> store" where
  "storeOverrides opts action s =
     (if isDeployNode action then
        (case nodeConfiguration action of
           None \<Rightarrow> s
         | Some r \<Rightarrow>
             s\<lparr>configurationAt :=
                 (configurationAt s)(r := rewriteConfiguration opts (configurationAt s r))\<rparr>)
      else s)"

definition mapParametersToActionStore :: "options \<Rightarrow> node \<Rightarrow> store \<Rightarrow> store" where
  "mapParametersToActionStore opts action s =
     storeOverrides opts action (storeEnvironment opts action (storeVariables opts action s))"

text \<open>The two loops of \<^verbatim>\<open>synth\<close> (lines 165 to 172) over the actions of a workflow.\<close>

definition synthStore :: "options \<Rightarrow> (string \<times> node) list option \<Rightarrow> store \<Rightarrow> store" where
  "synthStore opts actions s =
     foldl
       (\<lambda>s (actionName, action).
          foldl (\<lambda>s (childActionName, childAction).
                   mapParametersToActionStore opts childAction s)
            (mapParametersToActionStore opts action s)
            (nodeChildren action))
       s
       (case actions of None \<Rightarrow> [] | Some l \<Rightarrow> l)"

text \<open>
  The nodes the loops visit, in their order: each top-level action, followed by its
  child actions. Their variable and Environment objects, and how many deploy actions
  among them hold a given Configuration object.
\<close>

definition visited :: "(string \<times> node) list option \<Rightarrow> node list" where
  "visited actions =
     concat (map (\<lambda>(actionName, action). action # map snd (nodeChildren action))
               (case actions of None \<Rightarrow> [] | Some l \<Rightarrow> l))"

definition visitedVariables :: "(string \<times> node) list option \<Rightarrow> ref list" where
  "visitedVariables actions = concat (map nodeVariableRefs (visited actions))"

definition visitedEnvironments :: "(string \<times> node) list option \<Rightarrow> ref list" where
  "visitedEnvironments actions = List.map_filter nodeEnvironment (visited actions)"

definition rewriteCount :: "(string \<times> node) list option \<Rightarrow> ref \<Rightarrow> nat" where
  "rewriteCount actions r =
     length (filter (\<lambda>action. isDeployNode action \<and> nodeConfiguration action = Some r)
               (visited actions))"

text \<open>The node at a path of action names.\<close>

fun descendNode :: "node \<Rightarrow> string list \<Rightarrow> node option" where
  "descendNode action [] = Some action"
| "descendNode action (name # names) =
     (case map_of (nodeChildren action) name of
        None \<Rightarrow> None
      | Some child \<Rightarrow> descendNode child names)"

definition nodeAtPath :: "(string \<times> node) list option \<Rightarrow> string list \<Rightarrow> node option" where
  "nodeAtPath actions path =
     (case path of
        [] \<Rightarrow> None
      | name # names \<Rightarrow>
          (case map_of (case actions of None \<Rightarrow> [] | Some l \<Rightarrow> l) name of
             None \<Rightarrow> None
           | Some action \<Rightarrow> descendNode action names))"

section \<open>Example inputs in a store\<close>

text \<open>
  Every object of the example store starts with the same content; the references tell
  the objects apart.
\<close>

definition exStore :: store where
  "exStore =
     \<lparr>variableAt = (\<lambda>r. \<lparr>Name = ''stage'', Value = JStr ''dev''\<rparr>),
      environmentAt = (\<lambda>r. \<lparr>EnvName = ''production'', Connections = None\<rparr>),
      configurationAt = (\<lambda>r. [(''parameter-overrides'', ''stage=dev'')])\<rparr>"

definition exDeepNode :: node where
  "exDeepNode = Node (Some ''aws/build@v1'') (Some [4]) None None None"

definition exTestNode :: node where
  "exTestNode =
     Node (Some ''aws/managed-test@v1'') (Some [3]) None None (Some [(''Deep'', exDeepNode)])"

definition exBuildNode :: node where
  "exBuildNode =
     Node (Some ''aws/build@v1'') (Some [2]) (Some 5) (Some 6) (Some [(''Test'', exTestNode)])"

definition exDeployNode :: node where
  "exDeployNode = Node (Some ''aws/cfn-deploy@v1'') None None (Some 7) None"

text \<open>A document without shared objects.\<close>

definition exNodes :: "(string \<times> node) list option" where
  "exNodes = Some [(''Build'', exBuildNode), (''Deploy'', exDeployNode)]"



text \<open>
  Launch options whose values are \<^verbatim>\<open>undefined\<close>, one beside a legacy parameter of the same
  name and one without.
\<close>

definition exUndefinedOptions :: options where
  "exUndefinedOptions =
     \<lparr>launchOptions = Some [DynamicKVInput ''LAUNCH_OPTIONS_region'' JUndefined None,
                            DynamicKVInput ''orphan'' JNull None],
      parameters = [DynamicKVInput ''region'' (JStr ''us-east-1'') None],
      environments = []\<rparr>"

text \<open>
  A legacy environment with a named connection and no role, and no launch options; a
  deploy action in it.
\<close>

definition exLegacyOptions :: options where
  "exLegacyOptions =
     \<lparr>launchOptions = None,
      parameters = [],
      environments =
        [\<lparr>environmentName = ''dev'', awsAccountConnection = None\<rparr>,
         \<lparr>environmentName = ''qa'',
          awsAccountConnection =
            Some \<lparr>connectionName = ''qa-account'', launchRole = None\<rparr>\<rparr>]\<rparr>"

definition exQaDeploy :: action where
  "exQaDeploy =
     Action (Some ''aws/cfn-deploy@v1'')
       None
       (Some \<lparr>EnvName = ''qa'',
              Connections = Some [\<lparr>ConnName = ''old'', Role = ''old-role''\<rparr>]\<rparr>)
       None
       None"

section \<open>Auxiliary lemmas\<close>

lemma split_not_Nil: "split c s \<noteq> []"
  by (induction s) (auto split: list.splits)

lemma concat_split: "concat (map (\<lambda>t. t @ [c]) (split c s)) = s @ [c]"
  by (induction s) (auto split: list.splits)

lemma foldl_append_concat: "foldl (\<lambda>acc x. acc @ f x) a xs = a @ concat (map f xs)"
  by (induction xs arbitrary: a) auto

lemma split_none: "c \<notin> set t \<Longrightarrow> split c t = [t]"
  by (induction t) (auto split: list.splits)

lemma split_one: "count_list t c = 1 \<Longrightarrow> \<exists>k v. split c t = [k, v] \<and> t = k @ c # v"
proof (induction t)
  case Nil
  then show ?case by simp
next
  case (Cons x xs)
  show ?case
  proof (cases "x = c")
    case True
    with Cons.prems have "c \<notin> set xs" by (simp add: count_list_0_iff)
    then have "split c xs = [xs]" by (rule split_none)
    with True show ?thesis by simp
  next
    case False
    with Cons.prems have "count_list xs c = 1" by simp
    then obtain k v where "split c xs = [k, v]" "xs = k @ c # v"
      using Cons.IH by blast
    with False show ?thesis by simp
  qed
qed

lemma sel_setInputs [simp]:
  "Identifier (setInputs v a) = Identifier a"
  "Inputs (setInputs v a) = v"
  "Environment (setInputs v a) = Environment a"
  "Configuration (setInputs v a) = Configuration a"
  "Actions (setInputs v a) = Actions a"
  by (cases a; simp)+

lemma sel_setEnvironment [simp]:
  "Identifier (setEnvironment v a) = Identifier a"
  "Inputs (setEnvironment v a) = Inputs a"
  "Environment (setEnvironment v a) = v"
  "Configuration (setEnvironment v a) = Configuration a"
  "Actions (setEnvironment v a) = Actions a"
  by (cases a; simp)+

lemma sel_setConfiguration [simp]:
  "Identifier (setConfiguration v a) = Identifier a"
  "Inputs (setConfiguration v a) = Inputs a"
  "Environment (setConfiguration v a) = Environment a"
  "Configuration (setConfiguration v a) = v"
  "Actions (setConfiguration v a) = Actions a"
  by (cases a; simp)+

lemma sel_setActions [simp]:
  "Identifier (setActions v a) = Identifier a"
  "Inputs (setActions v a) = Inputs a"
  "Environment (setActions v a) = Environment a"
  "Configuration (setActions v a) = Configuration a"
  "Actions (setActions v a) = v"
  by (cases a; simp)+

lemma mapVariables_frame:
  "Identifier (mapVariables opts a) = Identifier a"
  "Environment (mapVariables opts a) = Environment a"
  "Configuration (mapVariables opts a) = Configuration a"
  "Actions (mapVariables opts a) = Actions a"
  by (simp_all add: mapVariables_def split: option.splits)

lemma mapEnvironment_frame:
  "Identifier (mapEnvironment opts a) = Identifier a"
  "Inputs (mapEnvironment opts a) = Inputs a"
  "Configuration (mapEnvironment opts a) = Configuration a"
  "Actions (mapEnvironment opts a) = Actions a"
  by (simp_all add: mapEnvironment_def split: option.splits)

lemma mapOverrides_frame:
  "Identifier (mapOverrides opts a) = Identifier a"
  "Inputs (mapOverrides opts a) = Inputs a"
  "Environment (mapOverrides opts a) = Environment a"
  "Actions (mapOverrides opts a) = Actions a"
  by (simp_all add: mapOverrides_def Let_def split: option.splits)

lemma mapEnvironment_cong:
  "Environment a = Environment b \<Longrightarrow>
   Environment (mapEnvironment opts a) = Environment (mapEnvironment opts b)"
  by (simp add: mapEnvironment_def split: option.splits)

lemma mapOverrides_cong:
  "Identifier a = Identifier b \<Longrightarrow> Configuration a = Configuration b \<Longrightarrow>
   Configuration (mapOverrides opts a) = Configuration (mapOverrides opts b)"
  by (simp add: mapOverrides_def isDeploy_def Let_def split: option.splits)

lemma mapParametersToAction_fields:
  "Identifier (mapParametersToAction opts a) = Identifier a"
  "Inputs (mapParametersToAction opts a) = Inputs (mapVariables opts a)"
  "Environment (mapParametersToAction opts a) = Environment (mapEnvironment opts a)"
  "Configuration (mapParametersToAction opts a) = Configuration (mapOverrides opts a)"
  "Actions (mapParametersToAction opts a) = Actions a"
proof -
  show "Identifier (mapParametersToAction opts a) = Identifier a"
    by (simp add: mapParametersToAction_def mapOverrides_frame mapEnvironment_frame
        mapVariables_frame)
  show "Inputs (mapParametersToAction opts a) = Inputs (mapVariables opts a)"
    by (simp add: mapParametersToAction_def mapOverrides_frame mapEnvironment_frame)
  show "Environment (mapParametersToAction opts a) = Environment (mapEnvironment opts a)"
    by (simp add: mapParametersToAction_def mapOverrides_frame
        mapEnvironment_cong [OF mapVariables_frame(2)])
  show "Configuration (mapParametersToAction opts a) = Configuration (mapOverrides opts a)"
    by (simp add: mapParametersToAction_def
        mapOverrides_cong [of "mapEnvironment opts (mapVariables opts a)" a]
        mapEnvironment_frame mapVariables_frame)
  show "Actions (mapParametersToAction opts a) = Actions a"
    by (simp add: mapParametersToAction_def mapOverrides_frame mapEnvironment_frame
        mapVariables_frame)
qed

lemma variablesOf_mapParametersToAction:
  "variablesOf (mapParametersToAction opts a) = map (mapVariable opts) (variablesOf a)"
  by (simp add: variablesOf_def mapParametersToAction_fields mapVariables_def
      split: option.splits)

lemma childAction_mapParametersToAction:
  "childAction (mapParametersToAction opts a) = childAction a"
  by (simp add: childAction_def fun_eq_iff mapParametersToAction_fields)

lemma descend_mapParametersToAction:
  "names \<noteq> [] \<Longrightarrow> descend (mapParametersToAction opts a) names = descend a names"
  by (cases names) (simp_all add: childAction_mapParametersToAction)

lemma map_of_map_snd:
  "map_of (map (\<lambda>(k, v). (k, f v)) xs) k = map_option f (map_of xs k)"
  by (induction xs) auto

lemma childAction_mapChildActions:
  "childAction (mapChildActions opts a) name =
   map_option (mapParametersToAction opts) (childAction a name)"
  by (simp add: childAction_def mapChildActions_def map_of_map_snd split: option.splits)

lemma mapChildActions_fields:
  "Identifier (mapChildActions opts a) = Identifier a"
  "Inputs (mapChildActions opts a) = Inputs a"
  "Environment (mapChildActions opts a) = Environment a"
  "Configuration (mapChildActions opts a) = Configuration a"
  by (simp_all add: mapChildActions_def split: option.splits)

lemma nodeAt_top:
  "nodeAt (mapWorkflow opts doc) [n] =
   map_option (\<lambda>a. mapChildActions opts (mapParametersToAction opts a)) (nodeAt doc [n])"
  by (simp add: nodeAt_def mapWorkflow_def map_of_map_snd split: option.splits)

lemma nodeAt_child:
  "nodeAt (mapWorkflow opts doc) [n, m] =
   map_option (mapParametersToAction opts) (nodeAt doc [n, m])"
  by (simp add: nodeAt_def mapWorkflow_def map_of_map_snd childAction_mapChildActions
      childAction_mapParametersToAction split: option.splits)

lemma nodeAt_deeper:
  "nodeAt (mapWorkflow opts doc) (n # m # k # ks) = nodeAt doc (n # m # k # ks)"
  by (simp add: nodeAt_def mapWorkflow_def map_of_map_snd childAction_mapChildActions
      childAction_mapParametersToAction split: option.splits)


lemma nodeAt_mapWorkflow:
  assumes "nodeAt doc p = Some a"
  shows "\<exists>a'. nodeAt (mapWorkflow opts doc) p = Some a'
           \<and> (ownFields a' = ownFields (mapParametersToAction opts a) \<or> a' = a)"
proof (cases p)
  case Nil
  with assms show ?thesis by (simp add: nodeAt_def)
next
  case (Cons n ns)
  show ?thesis
  proof (cases ns)
    case Nil
    with Cons assms show ?thesis
      by (simp add: nodeAt_top ownFields_def mapChildActions_fields)
  next
    case ns: (Cons m ms)
    show ?thesis
    proof (cases ms)
      case Nil
      with Cons ns assms show ?thesis by (simp add: nodeAt_child)
    next
      case (Cons k ks)
      with \<open>p = n # ns\<close> ns assms show ?thesis by (simp add: nodeAt_deeper)
    qed
  qed
qed

lemma findValue_no_option:
  "\<not> matchesOption opts k \<Longrightarrow>
   findValue (\<lambda>option. key option = k) (launchOptions opts) = JUndefined"
proof (cases "launchOptions opts")
  case None
  then show ?thesis by (simp add: findValue_def)
next
  case (Some l)
  assume "\<not> matchesOption opts k"
  with Some have "find (\<lambda>option. key option = k) l = None"
    by (simp add: matchesOption_def optionList_def find_None_iff)
  with Some show ?thesis by (simp add: findValue_def)
qed

lemma find_no_parameter:
  "\<not> matchesParameter opts k \<Longrightarrow>
   find (\<lambda>parameter. OPTIONS_PREFIX @ key parameter = k) (parameters opts) = None"
  by (auto simp: matchesParameter_def find_None_iff)

lemma specifiedValue_absent:
  "\<not> matchesOption opts k \<Longrightarrow> \<not> matchesParameter opts k \<Longrightarrow>
   specifiedValue opts k = JUndefined"
proof -
  assume a: "\<not> matchesOption opts k" "\<not> matchesParameter opts k"
  have "findValue (\<lambda>parameter. OPTIONS_PREFIX @ key parameter = k) (Some (parameters opts))
        = JUndefined"
    using a(2) by (simp add: findValue_def find_no_parameter)
  with a(1) show ?thesis
    by (simp add: specifiedValue_def findValue_no_option coalesce_def)
qed

lemma resolveOverride_absent:
  "\<not> matchesOption opts k \<Longrightarrow> \<not> matchesParameter opts k \<Longrightarrow>
   resolveOverride opts k = JUndefined"
proof -
  assume a: "\<not> matchesOption opts k" "\<not> matchesParameter opts k"
  have "findEntry (\<lambda>option. OPTIONS_PREFIX @ key option = k) (Some (parameters opts))
        = JUndefined"
    using a(2) by (simp add: findEntry_def find_no_parameter)
  with a(1) show ?thesis
    by (simp add: resolveOverride_def findValue_no_option coalesce_def)
qed

lemma newOverrides_concat:
  "newOverrides opts s =
   concat (map (\<lambda>t. emitParameter opts (parseTuple t)) (split (CHR '','') s))"
  by (simp add: newOverrides_def foldl_append_concat comp_def)

lemma Configuration_deploy:
  assumes "isDeploy a" "Configuration a = Some cfg"
    "map_of cfg ''parameter-overrides'' = Some s" "s \<noteq> []"
  shows "Configuration (mapParametersToAction opts a) =
         Some (AList.update ''parameter-overrides'' (butlast (newOverrides opts s)) cfg)"
proof -
  have "split (CHR '','') s \<noteq> []" by (rule split_not_Nil)
  then obtain t ts where "split (CHR '','') s = t # ts" by (cases "split (CHR '','') s") auto
  then have "newOverrides opts s \<noteq> []"
    by (simp add: newOverrides_concat emitParameter_def)
  with assms show ?thesis
    by (simp add: mapParametersToAction_fields mapOverrides_def Let_def)
qed

section \<open>Lemmas on the store\<close>

text \<open>
  The writes of \<^verbatim>\<open>mapParametersToAction\<close> to an Environment and to a Configuration, as
  functions on the objects, agree with the model on the value of an action.
\<close>

lemma Environment_bindEnvironment:
  "Environment (mapParametersToAction opts a) = map_option (bindEnvironment opts) (Environment a)"
  by (simp add: mapParametersToAction_fields mapEnvironment_def bindEnvironment_def
      split: option.splits)

lemma Configuration_rewriteConfiguration:
  "Configuration (mapParametersToAction opts a)
     = (if isDeploy a then map_option (rewriteConfiguration opts) (Configuration a)
        else Configuration a)"
  by (simp add: mapParametersToAction_fields mapOverrides_def rewriteConfiguration_def
      Let_def split: option.splits)

lemma mapVariable_idem: "mapVariable opts (mapVariable opts v) = mapVariable opts v"
  by (simp add: mapVariable_def Let_def)

lemma bindEnvironment_idem:
  "bindEnvironment opts (bindEnvironment opts e) = bindEnvironment opts e"
  by (simp add: bindEnvironment_def split: option.splits)

lemma storeVariable_at:
  "variableAt (storeVariable opts s x) r
     = (if r = x then mapVariable opts (variableAt s r) else variableAt s r)"
  "environmentAt (storeVariable opts s x) = environmentAt s"
  "configurationAt (storeVariable opts s x) = configurationAt s"
  by (simp_all add: storeVariable_def)

lemma foldl_storeVariable_at:
  "variableAt (foldl (storeVariable opts) s rs) r
     = (if r \<in> set rs then mapVariable opts (variableAt s r) else variableAt s r)"
  by (induction rs arbitrary: s) (simp_all add: storeVariable_at mapVariable_idem)

lemma foldl_storeVariable_frame:
  "environmentAt (foldl (storeVariable opts) s rs) = environmentAt s"
  "configurationAt (foldl (storeVariable opts) s rs) = configurationAt s"
  by (induction rs arbitrary: s) (simp_all add: storeVariable_at)

lemma mapParametersToActionStore_at:
  "variableAt (mapParametersToActionStore opts n s) r
     = (if r \<in> set (nodeVariableRefs n) then mapVariable opts (variableAt s r)
        else variableAt s r)"
  "environmentAt (mapParametersToActionStore opts n s) r
     = (if nodeEnvironment n = Some r then bindEnvironment opts (environmentAt s r)
        else environmentAt s r)"
  "configurationAt (mapParametersToActionStore opts n s) r
     = (if isDeployNode n \<and> nodeConfiguration n = Some r
        then rewriteConfiguration opts (configurationAt s r)
        else configurationAt s r)"
  by (simp_all add: mapParametersToActionStore_def storeOverrides_def storeEnvironment_def
      storeVariables_def foldl_storeVariable_at foldl_storeVariable_frame
      split: option.splits)

lemma walk_at:
  "variableAt (foldl (\<lambda>s n. mapParametersToActionStore opts n s) s ns) r
     = (if r \<in> set (concat (map nodeVariableRefs ns)) then mapVariable opts (variableAt s r)
        else variableAt s r)"
  "environmentAt (foldl (\<lambda>s n. mapParametersToActionStore opts n s) s ns) r
     = (if r \<in> set (List.map_filter nodeEnvironment ns)
        then bindEnvironment opts (environmentAt s r)
        else environmentAt s r)"
  "configurationAt (foldl (\<lambda>s n. mapParametersToActionStore opts n s) s ns) r
     = (rewriteConfiguration opts
          ^^ length (filter (\<lambda>n. isDeployNode n \<and> nodeConfiguration n = Some r) ns))
         (configurationAt s r)"
proof (induction ns arbitrary: s)
  case Nil
  {
    case 1 show ?case by simp
  next
    case 2 show ?case by (simp add: List.map_filter_simps)
  next
    case 3 show ?case by simp
  }
next
  case (Cons n ns)
  {
    case 1 show ?case
      by (simp add: Cons.IH(1) mapParametersToActionStore_at mapVariable_idem)
  next
    case 2 show ?case
      by (auto simp add: Cons.IH(2) mapParametersToActionStore_at bindEnvironment_idem
          List.map_filter_simps split: option.splits)
  next
    case 3 show ?case
      by (simp add: Cons.IH(3) mapParametersToActionStore_at funpow_swap1)
  }
qed

lemma synthStore_visited:
  "synthStore opts actions s
     = foldl (\<lambda>s n. mapParametersToActionStore opts n s) s (visited actions)"
proof -
  have inner: "foldl (\<lambda>s (childActionName, childAction).
                   mapParametersToActionStore opts childAction s) t cs
        = foldl (\<lambda>s n. mapParametersToActionStore opts n s) t (map snd cs)" for t cs
    by (induction cs arbitrary: t) (simp_all add: case_prod_beta)
  have "foldl
       (\<lambda>s (actionName, action).
          foldl (\<lambda>s (childActionName, childAction).
                   mapParametersToActionStore opts childAction s)
            (mapParametersToActionStore opts action s)
            (nodeChildren action))
       t l
     = foldl (\<lambda>s n. mapParametersToActionStore opts n s) t
         (concat (map (\<lambda>(actionName, action). action # map snd (nodeChildren action)) l))"
    for t l
    by (induction l arbitrary: t) (simp_all add: case_prod_beta inner)
  then show ?thesis by (simp add: synthStore_def visited_def)
qed

lemma visited_top:
  assumes "nodeAtPath actions [name] = Some action"
  shows "action \<in> set (visited actions)"
proof -
  from assms have "map_of (case actions of None \<Rightarrow> [] | Some l \<Rightarrow> l) name = Some action"
    by (simp add: nodeAtPath_def split: option.splits)
  then have "(name, action) \<in> set (case actions of None \<Rightarrow> [] | Some l \<Rightarrow> l)"
    by (rule map_of_SomeD)
  then show ?thesis
    by (force simp: visited_def)
qed

lemma visited_child:
  assumes "nodeAtPath actions [name, childName] = Some child"
  shows "child \<in> set (visited actions)"
proof -
  from assms obtain action
    where a: "map_of (case actions of None \<Rightarrow> [] | Some l \<Rightarrow> l) name = Some action"
      and c: "map_of (nodeChildren action) childName = Some child"
    by (auto simp: nodeAtPath_def split: option.splits)
  from a have "(name, action) \<in> set (case actions of None \<Rightarrow> [] | Some l \<Rightarrow> l)"
    by (rule map_of_SomeD)
  moreover from c have "(childName, child) \<in> set (nodeChildren action)"
    by (rule map_of_SomeD)
  ultimately show ?thesis
    by (force simp: visited_def)
qed

lemma exNodes_visited: "visited exNodes = [exBuildNode, exTestNode, exDeployNode]"
  by (simp add: visited_def exNodes_def nodeChildren_def exBuildNode_def exDeployNode_def)


lemma exNodes_refs:
  "visitedVariables exNodes = [2, 3]"
  "visitedEnvironments exNodes = [5]"
  "rewriteCount exNodes 6 = 0"
  "rewriteCount exNodes 7 = Suc 0"
  by (simp_all add: visitedVariables_def visitedEnvironments_def rewriteCount_def
      exNodes_visited nodeVariableRefs_def isDeployNode_def startsWith_def
      List.map_filter_simps exBuildNode_def exTestNode_def exDeployNode_def)


lemma exStore_at:
  "variableAt exStore r = \<lparr>Name = ''stage'', Value = JStr ''dev''\<rparr>"
  "environmentAt exStore r = \<lparr>EnvName = ''production'', Connections = None\<rparr>"
  "configurationAt exStore r = [(''parameter-overrides'', ''stage=dev'')]"
  by (simp_all add: exStore_def)

lemma ex_mapVariable:
  "mapVariable exOptions \<lparr>Name = ''stage'', Value = JStr ''dev''\<rparr>
     = \<lparr>Name = ''stage'', Value = JStr ''prod''\<rparr>"
  by (simp add: mapVariable_def specifiedValue_def findValue_def coalesce_def exOptions_def)

lemma ex_rewriteConfiguration:
  "rewriteConfiguration exOptions [(''parameter-overrides'', ''stage=dev'')]
     = [(''parameter-overrides'', ''stage=prod'')]"
  by (simp add: rewriteConfiguration_def newOverrides_concat emitParameter_def
      parseTuple_def resolveOverride_def findValue_def coalesce_def exOptions_def)

lemma ex_bindEnvironment:
  "bindEnvironment exOptions \<lparr>EnvName = ''production'', Connections = None\<rparr>
     = \<lparr>EnvName = ''production'',
        Connections = Some [\<lparr>ConnName = ''main-account'', Role = ''No role selected''\<rparr>]\<rparr>"
  by (simp add: bindEnvironment_def launchEnvironment_def findValue_def coalesce_def
      connectionBinding_def exOptions_def)

section \<open>Precedence of launch options over legacy parameters\<close>

text \<open>
  Claim C1 (amended). When a variable name is the key of a launch-options entry (the
  first one with the key), the resolution of the name returns the value of that entry
  whenever the value is neither \<^verbatim>\<open>null\<close> nor \<^verbatim>\<open>undefined\<close>, whatever the legacy
  parameters hold. An entry whose value is \<^verbatim>\<open>null\<close> or \<^verbatim>\<open>undefined\<close> does not shadow the
  legacy parameters: the resolution then returns the value of the first legacy
  parameter with that namespaced key, and \<^verbatim>\<open>undefined\<close> when there is none.
\<close>

theorem launch_option_wins_unless_nullish:
  assumes "launchOptions opts = Some entries"
    and "find (\<lambda>option. key option = optionName) entries = Some entry"
  shows "(val entry \<noteq> JNull \<and> val entry \<noteq> JUndefined
            \<longrightarrow> specifiedValue opts optionName = val entry)
         \<and> ((val entry = JNull \<or> val entry = JUndefined)
              \<and> find (\<lambda>parameter. OPTIONS_PREFIX @ key parameter = optionName)
                    (parameters opts) = Some p
            \<longrightarrow> specifiedValue opts optionName = val p)
         \<and> ((val entry = JNull \<or> val entry = JUndefined)
              \<and> find (\<lambda>parameter. OPTIONS_PREFIX @ key parameter = optionName)
                    (parameters opts) = None
            \<longrightarrow> specifiedValue opts optionName = JUndefined)"
proof -
  have n: "nullish v \<longleftrightarrow> v = JNull \<or> v = JUndefined" for v
    by (cases v) simp_all
  from assms show ?thesis
    by (auto simp: specifiedValue_def findValue_def coalesce_def n)
qed

theorem launch_option_wins_unless_nullish_witness:
  "launchOptions exOptions = Some (optionList exOptions)
   \<and> find (\<lambda>option. key option = ''LAUNCH_OPTIONS_region'') (optionList exOptions)
       = Some (DynamicKVInput ''LAUNCH_OPTIONS_region'' (JStr ''eu-west-1'') None)
   \<and> find (\<lambda>parameter. OPTIONS_PREFIX @ key parameter = ''LAUNCH_OPTIONS_region'')
         (parameters exOptions)
       = Some (DynamicKVInput ''region'' (JStr ''us-east-1'') None)
   \<and> specifiedValue exOptions ''LAUNCH_OPTIONS_region'' = JStr ''eu-west-1''
   \<and> launchOptions exUndefinedOptions = Some (optionList exUndefinedOptions)
   \<and> find (\<lambda>option. key option = ''LAUNCH_OPTIONS_region'') (optionList exUndefinedOptions)
       = Some (DynamicKVInput ''LAUNCH_OPTIONS_region'' JUndefined None)
   \<and> find (\<lambda>parameter. OPTIONS_PREFIX @ key parameter = ''LAUNCH_OPTIONS_region'')
         (parameters exUndefinedOptions)
       = Some (DynamicKVInput ''region'' (JStr ''us-east-1'') None)
   \<and> specifiedValue exUndefinedOptions ''LAUNCH_OPTIONS_region'' = JStr ''us-east-1''
   \<and> find (\<lambda>option. key option = ''orphan'') (optionList exUndefinedOptions)
       = Some (DynamicKVInput ''orphan'' JNull None)
   \<and> find (\<lambda>parameter. OPTIONS_PREFIX @ key parameter = ''orphan'')
         (parameters exUndefinedOptions) = None
   \<and> specifiedValue exUndefinedOptions ''orphan'' = JUndefined"
proof -
  have l1: "launchOptions exOptions = Some (optionList exOptions)"
    by (simp add: exOptions_def optionList_def)
  have f1: "find (\<lambda>option. key option = ''LAUNCH_OPTIONS_region'') (optionList exOptions)
       = Some (DynamicKVInput ''LAUNCH_OPTIONS_region'' (JStr ''eu-west-1'') None)"
    by (simp add: exOptions_def optionList_def)
  have p1: "find (\<lambda>parameter. OPTIONS_PREFIX @ key parameter = ''LAUNCH_OPTIONS_region'')
         (parameters exOptions)
       = Some (DynamicKVInput ''region'' (JStr ''us-east-1'') None)"
    by (simp add: exOptions_def OPTIONS_PREFIX_def)
  have l2: "launchOptions exUndefinedOptions = Some (optionList exUndefinedOptions)"
    by (simp add: exUndefinedOptions_def optionList_def)
  have f2: "find (\<lambda>option. key option = ''LAUNCH_OPTIONS_region'')
         (optionList exUndefinedOptions)
       = Some (DynamicKVInput ''LAUNCH_OPTIONS_region'' JUndefined None)"
    by (simp add: exUndefinedOptions_def optionList_def)
  have p2: "find (\<lambda>parameter. OPTIONS_PREFIX @ key parameter = ''LAUNCH_OPTIONS_region'')
         (parameters exUndefinedOptions)
       = Some (DynamicKVInput ''region'' (JStr ''us-east-1'') None)"
    by (simp add: exUndefinedOptions_def OPTIONS_PREFIX_def)
  have f3: "find (\<lambda>option. key option = ''orphan'') (optionList exUndefinedOptions)
       = Some (DynamicKVInput ''orphan'' JNull None)"
    by (simp add: exUndefinedOptions_def optionList_def)
  have p3: "find (\<lambda>parameter. OPTIONS_PREFIX @ key parameter = ''orphan'')
         (parameters exUndefinedOptions) = None"
    by (simp add: exUndefinedOptions_def OPTIONS_PREFIX_def)
  from launch_option_wins_unless_nullish [OF l1 f1]
  have r1: "specifiedValue exOptions ''LAUNCH_OPTIONS_region'' = JStr ''eu-west-1''"
    by simp
  from launch_option_wins_unless_nullish
         [OF l2 f2, of "DynamicKVInput ''region'' (JStr ''us-east-1'') None"] p2
  have r2: "specifiedValue exUndefinedOptions ''LAUNCH_OPTIONS_region'' = JStr ''us-east-1''"
    by simp
  from launch_option_wins_unless_nullish [OF l2 f3] p3
  have r3: "specifiedValue exUndefinedOptions ''orphan'' = JUndefined"
    by simp
  from l1 f1 p1 r1 l2 f2 p2 r2 f3 p3 r3 show ?thesis by simp
qed

text \<open>
  Claim C1 as stated fails: a launch-options entry whose value is \<^verbatim>\<open>null\<close> has the key
  \<^verbatim>\<open>LAUNCH_OPTIONS_region\<close>, the legacy parameter \<^verbatim>\<open>region\<close> has the same namespaced
  key, and the resolution returns the legacy parameter's value.
\<close>

theorem null_launch_option_counterexample:
  "find (\<lambda>option. key option = ''LAUNCH_OPTIONS_region'') (optionList exNullOptions)
     = Some (DynamicKVInput ''LAUNCH_OPTIONS_region'' JNull None)
   \<and> find (\<lambda>parameter. OPTIONS_PREFIX @ key parameter = ''LAUNCH_OPTIONS_region'')
         (parameters exNullOptions)
       = Some (DynamicKVInput ''region'' (JStr ''us-east-1'') None)
   \<and> specifiedValue exNullOptions ''LAUNCH_OPTIONS_region'' = JStr ''us-east-1''
   \<and> specifiedValue exNullOptions ''LAUNCH_OPTIONS_region'' \<noteq> JNull"
  by (simp add: exNullOptions_def optionList_def OPTIONS_PREFIX_def specifiedValue_def
      findValue_def coalesce_def)

section \<open>Depth of the walk\<close>

text \<open>
  Claim C2 (amended). The walk applies variable substitution, environment binding and
  override rewriting to every top-level action and to every child of a top-level
  action, and visits no other node. After the walk a variable object holds the
  substituted variable exactly when it is a variable of such a node, an Environment
  object holds the bound Environment exactly when it is the Environment of such a node,
  and a Configuration object has been rewritten once for every deploy action among such
  nodes that holds it; every other object is as before.
\<close>

theorem walk_visits_two_levels:
  "variableAt (synthStore opts actions s) r
     = (if r \<in> set (visitedVariables actions) then mapVariable opts (variableAt s r)
        else variableAt s r)
   \<and> environmentAt (synthStore opts actions s) r
       = (if r \<in> set (visitedEnvironments actions)
          then bindEnvironment opts (environmentAt s r)
          else environmentAt s r)
   \<and> configurationAt (synthStore opts actions s) r
       = (rewriteConfiguration opts ^^ rewriteCount actions r) (configurationAt s r)
   \<and> (nodeAtPath actions [name] = Some action \<longrightarrow> action \<in> set (visited actions))
   \<and> (nodeAtPath actions [name, childName] = Some child \<longrightarrow> child \<in> set (visited actions))"
  by (simp add: synthStore_visited walk_at visitedVariables_def visitedEnvironments_def
      rewriteCount_def visited_top visited_child)

theorem walk_visits_two_levels_witness:
  "nodeAtPath exNodes [''Build''] = Some exBuildNode
   \<and> nodeAtPath exNodes [''Build'', ''Test''] = Some exTestNode
   \<and> visited exNodes = [exBuildNode, exTestNode, exDeployNode]
   \<and> visitedVariables exNodes = [2, 3]
   \<and> variableAt (synthStore exOptions exNodes exStore) 2
       = \<lparr>Name = ''stage'', Value = JStr ''prod''\<rparr>
   \<and> variableAt (synthStore exOptions exNodes exStore) 3
       = \<lparr>Name = ''stage'', Value = JStr ''prod''\<rparr>
   \<and> variableAt (synthStore exOptions exNodes exStore) 4
       = \<lparr>Name = ''stage'', Value = JStr ''dev''\<rparr>
   \<and> visitedEnvironments exNodes = [5]
   \<and> environmentAt (synthStore exOptions exNodes exStore) 5
       = \<lparr>EnvName = ''production'',
          Connections = Some [\<lparr>ConnName = ''main-account'', Role = ''No role selected''\<rparr>]\<rparr>
   \<and> rewriteCount exNodes 6 = 0
   \<and> configurationAt (synthStore exOptions exNodes exStore) 6
       = [(''parameter-overrides'', ''stage=dev'')]
   \<and> rewriteCount exNodes 7 = Suc 0
   \<and> configurationAt (synthStore exOptions exNodes exStore) 7
       = [(''parameter-overrides'', ''stage=prod'')]"
proof -
  have p1: "nodeAtPath exNodes [''Build''] = Some exBuildNode"
    by (simp add: nodeAtPath_def exNodes_def)
  have p2: "nodeAtPath exNodes [''Build'', ''Test''] = Some exTestNode"
    by (simp add: nodeAtPath_def exNodes_def nodeChildren_def exBuildNode_def)
  have m: "exBuildNode \<in> set (visited exNodes)" "exTestNode \<in> set (visited exNodes)"
    using walk_visits_two_levels
            [of exOptions exNodes exStore 2 "''Build''" exBuildNode "''Test''" exTestNode]
          p1 p2
    by simp_all
  have v2: "variableAt (synthStore exOptions exNodes exStore) 2
            = \<lparr>Name = ''stage'', Value = JStr ''prod''\<rparr>"
    using walk_visits_two_levels [of exOptions exNodes exStore 2]
    by (simp add: exNodes_refs exStore_at ex_mapVariable)
  have v3: "variableAt (synthStore exOptions exNodes exStore) 3
            = \<lparr>Name = ''stage'', Value = JStr ''prod''\<rparr>"
    using walk_visits_two_levels [of exOptions exNodes exStore 3]
    by (simp add: exNodes_refs exStore_at ex_mapVariable)
  have v4: "variableAt (synthStore exOptions exNodes exStore) 4
            = \<lparr>Name = ''stage'', Value = JStr ''dev''\<rparr>"
    using walk_visits_two_levels [of exOptions exNodes exStore 4]
    by (simp add: exNodes_refs exStore_at)
  have e5: "environmentAt (synthStore exOptions exNodes exStore) 5
            = \<lparr>EnvName = ''production'',
               Connections = Some [\<lparr>ConnName = ''main-account'',
                                    Role = ''No role selected''\<rparr>]\<rparr>"
    using walk_visits_two_levels [of exOptions exNodes exStore 5]
    by (simp add: exNodes_refs exStore_at ex_bindEnvironment)
  have c6: "configurationAt (synthStore exOptions exNodes exStore) 6
            = [(''parameter-overrides'', ''stage=dev'')]"
    using walk_visits_two_levels [of exOptions exNodes exStore 6]
    by (simp add: exNodes_refs exStore_at)
  have c7: "configurationAt (synthStore exOptions exNodes exStore) 7
            = [(''parameter-overrides'', ''stage=prod'')]"
    using walk_visits_two_levels [of exOptions exNodes exStore 7]
    by (simp add: exNodes_refs exStore_at ex_rewriteConfiguration)
  from p1 p2 v2 v3 v4 e5 c6 c7 show ?thesis by (simp add: exNodes_refs exNodes_visited)
qed

text \<open>
  Claim C2 as stated fails: in a document without aliases, the variable \<^verbatim>\<open>stage\<close> of the
  action \<^verbatim>\<open>Deep\<close>, a child of the child \<^verbatim>\<open>Test\<close> of \<^verbatim>\<open>Build\<close>, keeps the value
  \<^verbatim>\<open>dev\<close> after the walk, where the substitution would have written \<^verbatim>\<open>prod\<close>.
\<close>

theorem third_level_counterexample:
  "nodeAtPath exNodes [''Build'', ''Test'', ''Deep''] = Some exDeepNode
   \<and> nodeVariables exDeepNode = Some [4]
   \<and> variableAt exStore 4 = \<lparr>Name = ''stage'', Value = JStr ''dev''\<rparr>
   \<and> mapVariable exOptions \<lparr>Name = ''stage'', Value = JStr ''dev''\<rparr>
       = \<lparr>Name = ''stage'', Value = JStr ''prod''\<rparr>
   \<and> variableAt (synthStore exOptions exNodes exStore) 4
       = \<lparr>Name = ''stage'', Value = JStr ''dev''\<rparr>"
proof -
  have p: "nodeAtPath exNodes [''Build'', ''Test'', ''Deep''] = Some exDeepNode"
    by (simp add: nodeAtPath_def exNodes_def nodeChildren_def exBuildNode_def exTestNode_def)
  have d: "nodeVariables exDeepNode = Some [4]"
    by (simp add: exDeepNode_def)
  have "variableAt (synthStore exOptions exNodes exStore) 4
        = (if 4 \<in> set (visitedVariables exNodes)
           then mapVariable exOptions (variableAt exStore 4) else variableAt exStore 4)"
    by (simp only: synthStore_visited walk_at visitedVariables_def)
  then have "variableAt (synthStore exOptions exNodes exStore) 4
        = \<lparr>Name = ''stage'', Value = JStr ''dev''\<rparr>"
    by (simp add: exNodes_refs exStore_at)
  with p d ex_mapVariable show ?thesis by (simp add: exStore_at)
qed

section \<open>Rewriting overrides that match no option\<close>

text \<open>
  Claim C3, at the override string \<^verbatim>\<open>a=b=c\<close> of a deploy action: the key \<^verbatim>\<open>a\<close> matches
  no launch-options entry and no namespaced legacy parameter, and the code rewrites the
  string to \<^verbatim>\<open>a=b\<close>, where the claim has the string unchanged. The split at \<^verbatim>\<open>=\<close> keeps
  the first two pieces only, so the rest of the value is lost.
\<close>

theorem second_equals_truncated:
  "isDeploy exMalformedDeploy
   \<and> Configuration exMalformedDeploy = Some [(''parameter-overrides'', ''a=b=c'')]
   \<and> pkey (parseTuple ''a=b=c'') = ''a''
   \<and> findValue (\<lambda>option. key option = ''a'') (launchOptions exOptions) = JUndefined
   \<and> find (\<lambda>parameter. OPTIONS_PREFIX @ key parameter = ''a'') (parameters exOptions) = None
   \<and> Configuration (mapParametersToAction exOptions exMalformedDeploy)
       = Some [(''parameter-overrides'', ''a=b'')]"
proof -
  have d: "isDeploy exMalformedDeploy"
    by (simp add: exMalformedDeploy_def isDeploy_def startsWith_def)
  have c: "Configuration exMalformedDeploy = Some [(''parameter-overrides'', ''a=b=c'')]"
    by (simp add: exMalformedDeploy_def)
  have k: "parseTuple ''a=b=c'' = \<lparr>pkey = ''a'', pvalue = JStr ''b''\<rparr>"
    by (simp add: parseTuple_def)
  have l: "findValue (\<lambda>option. key option = ''a'') (launchOptions exOptions) = JUndefined"
    by (simp add: findValue_def exOptions_def)
  have p: "find (\<lambda>parameter. OPTIONS_PREFIX @ key parameter = ''a'') (parameters exOptions)
           = None"
    by (simp add: exOptions_def OPTIONS_PREFIX_def)
  have "newOverrides exOptions ''a=b=c'' = ''a=b,''"
    using k l p
    by (simp add: newOverrides_concat emitParameter_def resolveOverride_def findEntry_def
        coalesce_def)
  then have "Configuration (mapParametersToAction exOptions exMalformedDeploy)
             = Some [(''parameter-overrides'', ''a=b'')]"
    using Configuration_deploy [OF d c, of "''a=b=c''" exOptions] by simp
  with d c k l p show ?thesis by simp
qed

text \<open>
  For tuples with exactly one \<^verbatim>\<open>=\<close> each, whose keys match no launch-options entry and
  no namespaced legacy parameter, the rebuilt string is the input string and the
  Configuration is unchanged.
\<close>

lemma emitParameter_wellformed:
  assumes "count_list t (CHR ''='') = 1"
    and "\<not> matchesOption opts (pkey (parseTuple t))"
    and "\<not> matchesParameter opts (pkey (parseTuple t))"
  shows "emitParameter opts (parseTuple t) = t @ '',''"
proof -
  from assms(1) obtain k v where kv: "split (CHR ''='') t = [k, v]" "t = k @ CHR ''='' # v"
    using split_one by blast
  then have p: "parseTuple t = \<lparr>pkey = k, pvalue = JStr v\<rparr>"
    by (simp add: parseTuple_def)
  with assms(2,3) have "resolveOverride opts k = JUndefined"
    by (simp add: resolveOverride_absent)
  with p kv(2) show ?thesis
    by (simp add: emitParameter_def coalesce_def)
qed

theorem override_rewrite_identity_wellformed:
  assumes "isDeploy a"
    and "Configuration a = Some cfg"
    and "map_of cfg ''parameter-overrides'' = Some s"
    and "\<forall>t \<in> set (split (CHR '','') s).
           count_list t (CHR ''='') = 1
           \<and> \<not> matchesOption opts (pkey (parseTuple t))
           \<and> \<not> matchesParameter opts (pkey (parseTuple t))"
  shows "butlast (newOverrides opts s) = s
         \<and> Configuration (mapParametersToAction opts a) = Some cfg"
proof -
  have "map (\<lambda>t. emitParameter opts (parseTuple t)) (split (CHR '','') s)
        = map (\<lambda>t. t @ '','') (split (CHR '','') s)"
    using assms(4) by (simp add: emitParameter_wellformed)
  then have "newOverrides opts s = concat (map (\<lambda>t. t @ '','') (split (CHR '','') s))"
    by (simp only: newOverrides_concat)
  then have new: "newOverrides opts s = s @ '',''"
    by (simp only: concat_split)
  have "s \<noteq> []"
  proof
    assume "s = []"
    with assms(4) show False by simp
  qed
  with assms(1-3) new show ?thesis
    by (simp add: Configuration_deploy update_triv)
qed

theorem override_rewrite_identity_wellformed_witness:
  "isDeploy exPlainDeploy
   \<and> Configuration exPlainDeploy = Some [(''parameter-overrides'', ''size=small,zone=a'')]
   \<and> split (CHR '','') ''size=small,zone=a'' = [''size=small'', ''zone=a'']
   \<and> count_list ''size=small'' (CHR ''='') = 1
   \<and> count_list ''zone=a'' (CHR ''='') = 1
   \<and> pkey (parseTuple ''size=small'') = ''size''
   \<and> pkey (parseTuple ''zone=a'') = ''zone''
   \<and> \<not> matchesOption exOptions ''size'' \<and> \<not> matchesParameter exOptions ''size''
   \<and> \<not> matchesOption exOptions ''zone'' \<and> \<not> matchesParameter exOptions ''zone''
   \<and> butlast (newOverrides exOptions ''size=small,zone=a'') = ''size=small,zone=a''
   \<and> Configuration (mapParametersToAction exOptions exPlainDeploy)
       = Some [(''parameter-overrides'', ''size=small,zone=a'')]"
  using override_rewrite_identity_wellformed
    [of exPlainDeploy "[(''parameter-overrides'', ''size=small,zone=a'')]"
        "''size=small,zone=a''" exOptions]
  by (simp add: exPlainDeploy_def isDeploy_def startsWith_def parseTuple_def
      matchesOption_def matchesParameter_def optionList_def exOptions_def
      OPTIONS_PREFIX_def)

section \<open>Frame lemmas for the walk\<close>

lemma walk_keeps:
  assumes "nodeAt doc path = Some a"
    and "\<And>b. ownFields b = ownFields (mapParametersToAction opts a) \<Longrightarrow> F b = F a"
  shows "map_option F (nodeAt (mapWorkflow opts doc) path) = Some (F a)"
proof -
  from assms(1) obtain a' where a': "nodeAt (mapWorkflow opts doc) path = Some a'"
    "ownFields a' = ownFields (mapParametersToAction opts a) \<or> a' = a"
    using nodeAt_mapWorkflow by blast
  from a'(2) have "F a' = F a"
    using assms(2) by auto
  with a'(1) show ?thesis by simp
qed

lemma variablesOf_ownFields:
  "ownFields b = ownFields a \<Longrightarrow> variablesOf b = variablesOf a"
  by (simp add: ownFields_def variablesOf_def)

lemma launchEnvironment_absent:
  assumes "\<not> matchesEnvironment opts name"
  shows "launchEnvironment opts name = JUndefined"
proof -
  have l: "findValue
          (\<lambda>option. displayType option = Some ''environment''
                     \<and> valueName (val option) = Some name)
          (launchOptions opts) = JUndefined"
  proof (cases "launchOptions opts")
    case None
    then show ?thesis by (simp add: findValue_def)
  next
    case (Some l)
    with assms have "find (\<lambda>option. displayType option = Some ''environment''
                     \<and> valueName (val option) = Some name) l = None"
      by (simp add: matchesEnvironment_def optionList_def find_None_iff)
    with Some show ?thesis by (simp add: findValue_def)
  qed
  from assms have "find (\<lambda>env. environmentName env = name) (environments opts) = None"
    by (simp add: matchesEnvironment_def find_None_iff)
  with l show ?thesis by (simp add: launchEnvironment_def coalesce_def)
qed

lemma mapEnvironment_no_connection:
  assumes "Environment a = Some env"
    and "case valueConnection (launchEnvironment opts (EnvName env)) of
           None \<Rightarrow> True
         | Some c \<Rightarrow> connectionName c = []"
  shows "Environment (mapParametersToAction opts a) = Some env"
  using assms
  by (simp add: mapParametersToAction_fields mapEnvironment_def split: option.splits)

section \<open>The legacy parameter as an override\<close>

text \<open>
  Claim C4. In the override rewriter, for a tuple whose key matches no launch-options
  entry and is the namespaced key of a legacy parameter, the resolved override is the
  parameter object itself, which the rebuilt string shows as \<^verbatim>\<open>[object Object]\<close>, while
  the resolution of a variable of the same name gives the parameter's \<^verbatim>\<open>value\<close>.
\<close>

theorem override_resolves_to_parameter_object:
  assumes "\<not> matchesOption opts k"
    and "find (\<lambda>parameter. OPTIONS_PREFIX @ key parameter = k) (parameters opts) = Some p"
  shows "resolveOverride opts k = JInput p
         \<and> specifiedValue opts k = val p
         \<and> emitParameter opts \<lparr>pkey = k, pvalue = v\<rparr> = k @ ''=[object Object],''"
proof -
  have l: "findValue (\<lambda>option. key option = k) (launchOptions opts) = JUndefined"
    using assms(1) by (rule findValue_no_option)
  have r: "resolveOverride opts k = JInput p"
    using l assms(2) by (simp add: resolveOverride_def findEntry_def coalesce_def)
  have s: "specifiedValue opts k = val p"
    using l assms(2) by (simp add: specifiedValue_def findValue_def coalesce_def)
  from r s show ?thesis by (simp add: emitParameter_def coalesce_def)
qed

theorem override_resolves_to_parameter_object_witness:
  "\<not> matchesOption exOptions ''LAUNCH_OPTIONS_tag''
   \<and> find (\<lambda>parameter. OPTIONS_PREFIX @ key parameter = ''LAUNCH_OPTIONS_tag'')
         (parameters exOptions)
       = Some (DynamicKVInput ''tag'' (JStr ''v1'') None)
   \<and> resolveOverride exOptions ''LAUNCH_OPTIONS_tag''
       = JInput (DynamicKVInput ''tag'' (JStr ''v1'') None)
   \<and> specifiedValue exOptions ''LAUNCH_OPTIONS_tag'' = JStr ''v1''
   \<and> emitParameter exOptions \<lparr>pkey = ''LAUNCH_OPTIONS_tag'', pvalue = JStr ''x''\<rparr>
       = ''LAUNCH_OPTIONS_tag=[object Object],''"
  using override_resolves_to_parameter_object
    [of exOptions "''LAUNCH_OPTIONS_tag''" "DynamicKVInput ''tag'' (JStr ''v1'') None"
        "JStr ''x''"]
  by (simp add: matchesOption_def optionList_def exOptions_def OPTIONS_PREFIX_def)

section \<open>Absent resolution\<close>

text \<open>
  Claim C5. For a node of the document, a variable whose name matches no launch-options
  entry and no namespaced legacy parameter is unchanged by \<^verbatim>\<open>mapParametersToAction\<close> and
  after the walk; and when the name of the node's Environment has no environment
  definition, or the definition found for it has no named account connection, the
  Environment of the node, with its Connections, is unchanged by \<^verbatim>\<open>mapParametersToAction\<close>
  and after the walk.
\<close>

theorem absent_resolution_is_noop:
  assumes "nodeAt doc path = Some a"
  shows "(i < length (variablesOf a)
            \<and> \<not> matchesOption opts (Name (variablesOf a ! i))
            \<and> \<not> matchesParameter opts (Name (variablesOf a ! i))
          \<longrightarrow> variablesOf (mapParametersToAction opts a) ! i = variablesOf a ! i
              \<and> map_option (\<lambda>a'. variablesOf a' ! i) (nodeAt (mapWorkflow opts doc) path)
                  = Some (variablesOf a ! i))
         \<and> (Environment a = Some env
              \<and> (\<not> matchesEnvironment opts (EnvName env)
                  \<or> (\<exists>d. launchEnvironment opts (EnvName env) = JEnv d
                          \<and> (case awsAccountConnection d of
                                None \<Rightarrow> True
                              | Some c \<Rightarrow> connectionName c = [])))
            \<longrightarrow> Environment (mapParametersToAction opts a) = Some env
                \<and> map_option Environment (nodeAt (mapWorkflow opts doc) path)
                    = Some (Some env))"
proof (intro conjI impI)
  assume h: "i < length (variablesOf a)
            \<and> \<not> matchesOption opts (Name (variablesOf a ! i))
            \<and> \<not> matchesParameter opts (Name (variablesOf a ! i))"
  then have "specifiedValue opts (Name (variablesOf a ! i)) = JUndefined"
    by (simp add: specifiedValue_absent)
  then have "mapVariable opts (variablesOf a ! i) = variablesOf a ! i"
    by (simp add: mapVariable_def)
  with h show m: "variablesOf (mapParametersToAction opts a) ! i = variablesOf a ! i"
    by (simp add: variablesOf_mapParametersToAction)
  show "map_option (\<lambda>a'. variablesOf a' ! i) (nodeAt (mapWorkflow opts doc) path)
        = Some (variablesOf a ! i)"
    using assms
  proof (rule walk_keeps)
    fix b
    assume "ownFields b = ownFields (mapParametersToAction opts a)"
    then have "variablesOf b = variablesOf (mapParametersToAction opts a)"
      by (rule variablesOf_ownFields)
    with m show "variablesOf b ! i = variablesOf a ! i" by simp
  qed
next
  assume h: "Environment a = Some env
              \<and> (\<not> matchesEnvironment opts (EnvName env)
                  \<or> (\<exists>d. launchEnvironment opts (EnvName env) = JEnv d
                          \<and> (case awsAccountConnection d of
                                None \<Rightarrow> True
                              | Some c \<Rightarrow> connectionName c = [])))"
  then have "case valueConnection (launchEnvironment opts (EnvName env)) of
               None \<Rightarrow> True
             | Some c \<Rightarrow> connectionName c = []"
    by (auto simp: launchEnvironment_absent)
  with h show e: "Environment (mapParametersToAction opts a) = Some env"
    by (simp add: mapEnvironment_no_connection)
  show "map_option Environment (nodeAt (mapWorkflow opts doc) path) = Some (Some env)"
  proof -
    have "map_option Environment (nodeAt (mapWorkflow opts doc) path)
          = Some (Environment a)"
      using assms
    proof (rule walk_keeps)
      fix b
      assume "ownFields b = ownFields (mapParametersToAction opts a)"
      with e h show "Environment b = Environment a" by (simp add: ownFields_def)
    qed
    with h show ?thesis by simp
  qed
qed

theorem absent_resolution_is_noop_witness:
  "nodeAt exDoc [''Build''] = Some exBuild
   \<and> (1::nat) < length (variablesOf exBuild)
   \<and> variablesOf exBuild ! 1 = \<lparr>Name = ''other'', Value = JStr ''keep''\<rparr>
   \<and> \<not> matchesOption exOptions ''other''
   \<and> \<not> matchesParameter exOptions ''other''
   \<and> variablesOf (mapParametersToAction exOptions exBuild) ! 1
       = \<lparr>Name = ''other'', Value = JStr ''keep''\<rparr>
   \<and> map_option (\<lambda>a'. variablesOf a' ! 1) (nodeAt (mapWorkflow exOptions exDoc) [''Build''])
       = Some \<lparr>Name = ''other'', Value = JStr ''keep''\<rparr>
   \<and> Environment exBuild
       = Some \<lparr>EnvName = ''unknown'',
               Connections = Some [\<lparr>ConnName = ''old'', Role = ''old-role''\<rparr>]\<rparr>
   \<and> \<not> matchesEnvironment exOptions ''unknown''
   \<and> map_option Environment (nodeAt (mapWorkflow exOptions exDoc) [''Build''])
       = Some (Some \<lparr>EnvName = ''unknown'',
                     Connections = Some [\<lparr>ConnName = ''old'', Role = ''old-role''\<rparr>]\<rparr>)
   \<and> nodeAt exDoc [''Build'', ''Test''] = Some exTest
   \<and> Environment exTest
       = Some \<lparr>EnvName = ''staging'',
               Connections = Some [\<lparr>ConnName = ''old'', Role = ''old-role''\<rparr>]\<rparr>
   \<and> launchEnvironment exOptions ''staging''
       = JEnv \<lparr>environmentName = ''staging'', awsAccountConnection = None\<rparr>
   \<and> Environment (mapParametersToAction exOptions exTest)
       = Some \<lparr>EnvName = ''staging'',
               Connections = Some [\<lparr>ConnName = ''old'', Role = ''old-role''\<rparr>]\<rparr>
   \<and> map_option Environment (nodeAt (mapWorkflow exOptions exDoc) [''Build'', ''Test''])
       = Some (Some \<lparr>EnvName = ''staging'',
                     Connections = Some [\<lparr>ConnName = ''old'', Role = ''old-role''\<rparr>]\<rparr>)"
proof -
  have n1: "nodeAt exDoc [''Build''] = Some exBuild"
    by (simp add: nodeAt_def exDoc_def)
  have vs: "variablesOf exBuild
            = [\<lparr>Name = ''stage'', Value = JStr ''dev''\<rparr>,
               \<lparr>Name = ''other'', Value = JStr ''keep''\<rparr>,
               \<lparr>Name = ''retries'', Value = JStr ''3''\<rparr>]"
    by (simp add: variablesOf_def exBuild_def)
  have l: "(1::nat) < length (variablesOf exBuild)"
    by (simp add: vs)
  have v: "variablesOf exBuild ! 1 = \<lparr>Name = ''other'', Value = JStr ''keep''\<rparr>"
    by (simp add: vs)
  have mo: "\<not> matchesOption exOptions ''other''"
    by (simp add: matchesOption_def optionList_def exOptions_def)
  have mp: "\<not> matchesParameter exOptions ''other''"
    by (simp add: matchesParameter_def exOptions_def OPTIONS_PREFIX_def)
  have e1: "Environment exBuild
            = Some \<lparr>EnvName = ''unknown'',
                    Connections = Some [\<lparr>ConnName = ''old'', Role = ''old-role''\<rparr>]\<rparr>"
    by (simp add: exBuild_def)
  have me: "\<not> matchesEnvironment exOptions ''unknown''"
    by (simp add: matchesEnvironment_def optionList_def exOptions_def)
  have n2: "nodeAt exDoc [''Build'', ''Test''] = Some exTest"
    by (simp add: nodeAt_def exDoc_def exBuild_def childAction_def)
  have e2: "Environment exTest
            = Some \<lparr>EnvName = ''staging'',
                    Connections = Some [\<lparr>ConnName = ''old'', Role = ''old-role''\<rparr>]\<rparr>"
    by (simp add: exTest_def)
  have le: "launchEnvironment exOptions ''staging''
            = JEnv \<lparr>environmentName = ''staging'', awsAccountConnection = None\<rparr>"
    by (simp add: launchEnvironment_def findValue_def coalesce_def exOptions_def)
  from absent_resolution_is_noop
         [OF n1, of 1 exOptions
            "\<lparr>EnvName = ''unknown'',
              Connections = Some [\<lparr>ConnName = ''old'', Role = ''old-role''\<rparr>]\<rparr>"]
       absent_resolution_is_noop
         [OF n2, of 0 exOptions
            "\<lparr>EnvName = ''staging'',
              Connections = Some [\<lparr>ConnName = ''old'', Role = ''old-role''\<rparr>]\<rparr>"]
       n1 l v mo mp e1 me n2 e2 le
  show ?thesis by simp
qed

section \<open>Environment binding\<close>

lemma launchEnvironment_launch_option:
  assumes "find (\<lambda>option. displayType option = Some ''environment''
                    \<and> (case val option of JEnv e \<Rightarrow> environmentName e = name | _ \<Rightarrow> False))
             (optionList opts) = Some entry"
    and "val entry = JEnv d"
  shows "launchEnvironment opts name = JEnv d"
proof -
  have eq: "(\<lambda>option. displayType option = Some ''environment''
                    \<and> (case val option of JEnv e \<Rightarrow> environmentName e = name | _ \<Rightarrow> False))
        = (\<lambda>option. displayType option = Some ''environment''
                     \<and> valueName (val option) = Some name)"
  proof
    fix option
    show "(displayType option = Some ''environment''
                    \<and> (case val option of JEnv e \<Rightarrow> environmentName e = name | _ \<Rightarrow> False))
        = (displayType option = Some ''environment''
                     \<and> valueName (val option) = Some name)"
      by (cases "val option") simp_all
  qed
  from assms(1) obtain l where l: "launchOptions opts = Some l"
    by (cases "launchOptions opts") (simp_all add: optionList_def)
  with assms show ?thesis
    by (simp add: eq launchEnvironment_def findValue_def coalesce_def optionList_def)
qed

lemma launchEnvironment_legacy:
  assumes "find (\<lambda>option. displayType option = Some ''environment''
                    \<and> (case val option of JEnv e \<Rightarrow> environmentName e = name | _ \<Rightarrow> False))
             (optionList opts) = None"
    and "find (\<lambda>env. environmentName env = name) (environments opts) = Some d"
  shows "launchEnvironment opts name = JEnv d"
proof -
  have eq: "(\<lambda>option. displayType option = Some ''environment''
                    \<and> (case val option of JEnv e \<Rightarrow> environmentName e = name | _ \<Rightarrow> False))
        = (\<lambda>option. displayType option = Some ''environment''
                     \<and> valueName (val option) = Some name)"
  proof
    fix option
    show "(displayType option = Some ''environment''
                    \<and> (case val option of JEnv e \<Rightarrow> environmentName e = name | _ \<Rightarrow> False))
        = (displayType option = Some ''environment''
                     \<and> valueName (val option) = Some name)"
      by (cases "val option") simp_all
  qed
  have "findValue (\<lambda>option. displayType option = Some ''environment''
                     \<and> valueName (val option) = Some name) (launchOptions opts) = JUndefined"
  proof (cases "launchOptions opts")
    case None
    then show ?thesis by (simp add: findValue_def)
  next
    case (Some l)
    with assms(1) show ?thesis by (simp add: eq findValue_def optionList_def)
  qed
  with assms(2) show ?thesis
    by (simp add: launchEnvironment_def coalesce_def)
qed

text \<open>
  Claim C6. Let an action declare an Environment name, and let a definition be the one
  for that name: the value of the first environment entry of the launch options with
  the name or, when no such entry exists, the first legacy environment with the name.
  When the definition has a named account connection and no launch role, the
  Connections of the action afterwards hold one binding, whose Role is the literal
  \<^verbatim>\<open>No role selected\<close>.
\<close>

theorem missing_role_sentinel:
  assumes "Environment a = Some env"
    and "EnvName env = name"
    and "name \<noteq> []"
    and "(\<exists>entry. find (\<lambda>option. displayType option = Some ''environment''
                           \<and> (case val option of
                                 JEnv e \<Rightarrow> environmentName e = name
                               | _ \<Rightarrow> False))
                    (optionList opts) = Some entry
                 \<and> val entry = JEnv d)
         \<or> (find (\<lambda>option. displayType option = Some ''environment''
                           \<and> (case val option of
                                 JEnv e \<Rightarrow> environmentName e = name
                               | _ \<Rightarrow> False))
               (optionList opts) = None
             \<and> find (\<lambda>definition. environmentName definition = name)
                 (environments opts) = Some d)"
    and "awsAccountConnection d = Some c"
    and "connectionName c \<noteq> []"
    and "launchRole c = None"
  shows "map_option Connections (Environment (mapParametersToAction opts a))
         = Some (Some [\<lparr>ConnName = connectionName c, Role = ''No role selected''\<rparr>])"
proof -
  from assms(4) have "launchEnvironment opts name = JEnv d"
    by (auto intro: launchEnvironment_launch_option launchEnvironment_legacy)
  with assms(1,2,3,5,6,7) show ?thesis
    by (simp add: mapParametersToAction_fields mapEnvironment_def connectionBinding_def)
qed

theorem missing_role_sentinel_witness:
  "Environment exDeploy
     = Some \<lparr>EnvName = ''production'',
             Connections = Some [\<lparr>ConnName = ''old'', Role = ''old-role''\<rparr>,
                                 \<lparr>ConnName = ''older'', Role = ''older-role''\<rparr>]\<rparr>
   \<and> find (\<lambda>option. displayType option = Some ''environment''
                     \<and> (case val option of
                           JEnv e \<Rightarrow> environmentName e = ''production''
                         | _ \<Rightarrow> False))
         (optionList exOptions)
       = Some (DynamicKVInput ''production''
                 (JEnv \<lparr>environmentName = ''production'',
                        awsAccountConnection =
                          Some \<lparr>connectionName = ''main-account'', launchRole = None\<rparr>\<rparr>)
                 (Some ''environment''))
   \<and> map_option Connections (Environment (mapParametersToAction exOptions exDeploy))
       = Some (Some [\<lparr>ConnName = ''main-account'', Role = ''No role selected''\<rparr>])
   \<and> Environment exQaDeploy
       = Some \<lparr>EnvName = ''qa'',
               Connections = Some [\<lparr>ConnName = ''old'', Role = ''old-role''\<rparr>]\<rparr>
   \<and> find (\<lambda>option. displayType option = Some ''environment''
                     \<and> (case val option of
                           JEnv e \<Rightarrow> environmentName e = ''qa''
                         | _ \<Rightarrow> False))
         (optionList exLegacyOptions) = None
   \<and> find (\<lambda>definition. environmentName definition = ''qa'') (environments exLegacyOptions)
       = Some \<lparr>environmentName = ''qa'',
               awsAccountConnection =
                 Some \<lparr>connectionName = ''qa-account'', launchRole = None\<rparr>\<rparr>
   \<and> map_option Connections (Environment (mapParametersToAction exLegacyOptions exQaDeploy))
       = Some (Some [\<lparr>ConnName = ''qa-account'', Role = ''No role selected''\<rparr>])"
proof -
  have e1: "Environment exDeploy
     = Some \<lparr>EnvName = ''production'',
             Connections = Some [\<lparr>ConnName = ''old'', Role = ''old-role''\<rparr>,
                                 \<lparr>ConnName = ''older'', Role = ''older-role''\<rparr>]\<rparr>"
    by (simp add: exDeploy_def)
  have n1: "EnvName \<lparr>EnvName = ''production'',
             Connections = Some [\<lparr>ConnName = ''old'', Role = ''old-role''\<rparr>,
                                 \<lparr>ConnName = ''older'', Role = ''older-role''\<rparr>]\<rparr>
            = ''production''"
    by simp
  have f1: "find (\<lambda>option. displayType option = Some ''environment''
                     \<and> (case val option of
                           JEnv e \<Rightarrow> environmentName e = ''production''
                         | _ \<Rightarrow> False))
         (optionList exOptions)
       = Some (DynamicKVInput ''production''
                 (JEnv \<lparr>environmentName = ''production'',
                        awsAccountConnection =
                          Some \<lparr>connectionName = ''main-account'', launchRole = None\<rparr>\<rparr>)
                 (Some ''environment''))"
    by (simp add: optionList_def exOptions_def)
  have h1: "(\<exists>entry. find (\<lambda>option. displayType option = Some ''environment''
                           \<and> (case val option of
                                 JEnv e \<Rightarrow> environmentName e = ''production''
                               | _ \<Rightarrow> False))
                    (optionList exOptions) = Some entry
                 \<and> val entry
                     = JEnv \<lparr>environmentName = ''production'',
                             awsAccountConnection =
                               Some \<lparr>connectionName = ''main-account'',
                                     launchRole = None\<rparr>\<rparr>)
         \<or> (find (\<lambda>option. displayType option = Some ''environment''
                           \<and> (case val option of
                                 JEnv e \<Rightarrow> environmentName e = ''production''
                               | _ \<Rightarrow> False))
               (optionList exOptions) = None
             \<and> find (\<lambda>definition. environmentName definition = ''production'')
                 (environments exOptions)
               = Some \<lparr>environmentName = ''production'',
                       awsAccountConnection =
                         Some \<lparr>connectionName = ''main-account'', launchRole = None\<rparr>\<rparr>)"
    by (simp add: f1)
  have e2: "Environment exQaDeploy
       = Some \<lparr>EnvName = ''qa'',
               Connections = Some [\<lparr>ConnName = ''old'', Role = ''old-role''\<rparr>]\<rparr>"
    by (simp add: exQaDeploy_def)
  have n2: "EnvName \<lparr>EnvName = ''qa'',
               Connections = Some [\<lparr>ConnName = ''old'', Role = ''old-role''\<rparr>]\<rparr> = ''qa''"
    by simp
  have f2: "find (\<lambda>option. displayType option = Some ''environment''
                     \<and> (case val option of
                           JEnv e \<Rightarrow> environmentName e = ''qa''
                         | _ \<Rightarrow> False))
         (optionList exLegacyOptions) = None"
    by (simp add: optionList_def exLegacyOptions_def)
  have g2: "find (\<lambda>definition. environmentName definition = ''qa'')
         (environments exLegacyOptions)
       = Some \<lparr>environmentName = ''qa'',
               awsAccountConnection =
                 Some \<lparr>connectionName = ''qa-account'', launchRole = None\<rparr>\<rparr>"
    by (simp add: exLegacyOptions_def)
  have h2: "(\<exists>entry. find (\<lambda>option. displayType option = Some ''environment''
                           \<and> (case val option of
                                 JEnv e \<Rightarrow> environmentName e = ''qa''
                               | _ \<Rightarrow> False))
                    (optionList exLegacyOptions) = Some entry
                 \<and> val entry
                     = JEnv \<lparr>environmentName = ''qa'',
                             awsAccountConnection =
                               Some \<lparr>connectionName = ''qa-account'',
                                     launchRole = None\<rparr>\<rparr>)
         \<or> (find (\<lambda>option. displayType option = Some ''environment''
                           \<and> (case val option of
                                 JEnv e \<Rightarrow> environmentName e = ''qa''
                               | _ \<Rightarrow> False))
               (optionList exLegacyOptions) = None
             \<and> find (\<lambda>definition. environmentName definition = ''qa'')
                 (environments exLegacyOptions)
               = Some \<lparr>environmentName = ''qa'',
                       awsAccountConnection =
                         Some \<lparr>connectionName = ''qa-account'', launchRole = None\<rparr>\<rparr>)"
    by (simp add: f2 g2)
  have r1: "map_option Connections (Environment (mapParametersToAction exOptions exDeploy))
       = Some (Some [\<lparr>ConnName = ''main-account'', Role = ''No role selected''\<rparr>])"
    using missing_role_sentinel
      [OF e1 n1 _ h1, of "\<lparr>connectionName = ''main-account'', launchRole = None\<rparr>"]
    by simp
  have r2: "map_option Connections
              (Environment (mapParametersToAction exLegacyOptions exQaDeploy))
       = Some (Some [\<lparr>ConnName = ''qa-account'', Role = ''No role selected''\<rparr>])"
    using missing_role_sentinel
      [OF e2 n2 _ h2, of "\<lparr>connectionName = ''qa-account'', launchRole = None\<rparr>"]
    by simp
  from e1 f1 r1 e2 f2 g2 r2 show ?thesis by simp
qed

text \<open>
  Claim C7. Whenever a binding is produced for an action (its Environment has a name and
  the definition found for it has a named account connection), the Connections of the
  action afterwards are the one-element list of that binding, which carries the name of
  the connection and the role; the earlier Connections do not occur in the result.
\<close>

theorem binding_replaces_connections:
  assumes "Environment a = Some env"
    and "EnvName env \<noteq> []"
    and "valueConnection (launchEnvironment opts (EnvName env)) = Some c"
    and "connectionName c \<noteq> []"
  shows "Environment (mapParametersToAction opts a)
           = Some \<lparr>EnvName = EnvName env, Connections = Some [connectionBinding c]\<rparr>
         \<and> ConnName (connectionBinding c) = connectionName c
         \<and> Role (connectionBinding c)
             = (case launchRole c of None \<Rightarrow> ''No role selected'' | Some r \<Rightarrow> roleName r)"
  using assms
  by (simp add: mapParametersToAction_fields mapEnvironment_def connectionBinding_def)

theorem binding_replaces_connections_witness:
  "Environment exBetaDeploy
     = Some \<lparr>EnvName = ''beta'',
             Connections = Some [\<lparr>ConnName = ''old'', Role = ''old-role''\<rparr>,
                                 \<lparr>ConnName = ''older'', Role = ''older-role''\<rparr>]\<rparr>
   \<and> ''beta'' \<noteq> []
   \<and> valueConnection (launchEnvironment exOptions ''beta'')
       = Some \<lparr>connectionName = ''beta-account'',
                launchRole = Some \<lparr>roleName = ''deployer''\<rparr>\<rparr>
   \<and> ''beta-account'' \<noteq> []
   \<and> Environment (mapParametersToAction exOptions exBetaDeploy)
       = Some \<lparr>EnvName = ''beta'',
               Connections = Some [\<lparr>ConnName = ''beta-account'', Role = ''deployer''\<rparr>]\<rparr>"
  using binding_replaces_connections
    [of exBetaDeploy
        "\<lparr>EnvName = ''beta'',
          Connections = Some [\<lparr>ConnName = ''old'', Role = ''old-role''\<rparr>,
                              \<lparr>ConnName = ''older'', Role = ''older-role''\<rparr>]\<rparr>"
        exOptions
        "\<lparr>connectionName = ''beta-account'',
          launchRole = Some \<lparr>roleName = ''deployer''\<rparr>\<rparr>"]
  by (simp add: exBetaDeploy_def launchEnvironment_def findValue_def coalesce_def
      exOptions_def connectionBinding_def)

section \<open>Actions that are not deploy actions\<close>




section \<open>Falsy resolved values\<close>

text \<open>
  Claim C9. A variable whose name resolves to a falsy value (the empty string, \<^verbatim>\<open>0\<close>,
  \<^verbatim>\<open>false\<close>, \<^verbatim>\<open>null\<close> or \<^verbatim>\<open>undefined\<close>) is unchanged by the substitution, by
  \<^verbatim>\<open>mapParametersToAction\<close> and after the walk.
\<close>

theorem falsy_value_leaves_variable:
  assumes "nodeAt doc path = Some a"
    and "i < length (variablesOf a)"
    and "specifiedValue opts (Name (variablesOf a ! i))
           \<in> {JStr [], JNum 0, JBool False, JNull, JUndefined}"
  shows "mapVariable opts (variablesOf a ! i) = variablesOf a ! i
         \<and> variablesOf (mapParametersToAction opts a) ! i = variablesOf a ! i
         \<and> map_option (\<lambda>a'. variablesOf a' ! i) (nodeAt (mapWorkflow opts doc) path)
             = Some (variablesOf a ! i)"
proof -
  from assms(3) have "\<not> truthy (specifiedValue opts (Name (variablesOf a ! i)))"
    by auto
  then have v: "mapVariable opts (variablesOf a ! i) = variablesOf a ! i"
    by (simp add: mapVariable_def)
  with assms(2) have m: "variablesOf (mapParametersToAction opts a) ! i = variablesOf a ! i"
    by (simp add: variablesOf_mapParametersToAction)
  have "map_option (\<lambda>a'. variablesOf a' ! i) (nodeAt (mapWorkflow opts doc) path)
        = Some (variablesOf a ! i)"
    using assms(1)
  proof (rule walk_keeps)
    fix b
    assume "ownFields b = ownFields (mapParametersToAction opts a)"
    then have "variablesOf b = variablesOf (mapParametersToAction opts a)"
      by (rule variablesOf_ownFields)
    with m show "variablesOf b ! i = variablesOf a ! i" by simp
  qed
  with v m show ?thesis by simp
qed

theorem falsy_value_leaves_variable_witness:
  "nodeAt exDoc [''Build''] = Some exBuild
   \<and> (2::nat) < length (variablesOf exBuild)
   \<and> variablesOf exBuild ! 2 = \<lparr>Name = ''retries'', Value = JStr ''3''\<rparr>
   \<and> matchesOption exOptions ''retries''
   \<and> specifiedValue exOptions ''retries'' = JNum 0
   \<and> mapVariable exOptions \<lparr>Name = ''retries'', Value = JStr ''3''\<rparr>
       = \<lparr>Name = ''retries'', Value = JStr ''3''\<rparr>
   \<and> variablesOf (mapParametersToAction exOptions exBuild) ! 2
       = \<lparr>Name = ''retries'', Value = JStr ''3''\<rparr>
   \<and> map_option (\<lambda>a'. variablesOf a' ! 2) (nodeAt (mapWorkflow exOptions exDoc) [''Build''])
       = Some \<lparr>Name = ''retries'', Value = JStr ''3''\<rparr>"
proof -
  have n: "nodeAt exDoc [''Build''] = Some exBuild"
    by (simp add: nodeAt_def exDoc_def)
  have vs: "variablesOf exBuild
            = [\<lparr>Name = ''stage'', Value = JStr ''dev''\<rparr>,
               \<lparr>Name = ''other'', Value = JStr ''keep''\<rparr>,
               \<lparr>Name = ''retries'', Value = JStr ''3''\<rparr>]"
    by (simp add: variablesOf_def exBuild_def)
  have l: "(2::nat) < length (variablesOf exBuild)"
    by (simp add: vs)
  have v: "variablesOf exBuild ! 2 = \<lparr>Name = ''retries'', Value = JStr ''3''\<rparr>"
    by (simp add: vs)
  have m: "matchesOption exOptions ''retries''"
    by (simp add: matchesOption_def optionList_def exOptions_def)
  have s: "specifiedValue exOptions ''retries'' = JNum 0"
    by (simp add: specifiedValue_def findValue_def coalesce_def exOptions_def)
  from falsy_value_leaves_variable [OF n l, of exOptions] n l v m s
  show ?thesis by simp
qed

section \<open>Tokens without a separator\<close>

text \<open>
  Claim C10. For a deploy action with a non-empty override string, a token that has no
  \<^verbatim>\<open>=\<close> and matches no launch-options key and no namespaced legacy parameter key is
  emitted as the token followed by \<^verbatim>\<open>=undefined\<close>, at its place in the rebuilt string.
\<close>

theorem token_without_separator_emits_undefined:
  assumes "isDeploy a"
    and "Configuration a = Some cfg"
    and "map_of cfg ''parameter-overrides'' = Some s"
    and "s \<noteq> []"
    and "i < length (split (CHR '','') s)"
    and "split (CHR '','') s ! i = t"
    and "CHR ''='' \<notin> set t"
    and "\<not> matchesOption opts t"
    and "\<not> matchesParameter opts t"
  shows "emitParameter opts (parseTuple t) = t @ ''=undefined,''
         \<and> Configuration (mapParametersToAction opts a)
             = Some (AList.update ''parameter-overrides''
                 (butlast
                    (concat (map (\<lambda>u. emitParameter opts (parseTuple u))
                               (take i (split (CHR '','') s)))
                     @ t @ ''=undefined,''
                     @ concat (map (\<lambda>u. emitParameter opts (parseTuple u))
                                 (drop (Suc i) (split (CHR '','') s)))))
                 cfg)"
proof -
  from assms(7) have "split (CHR ''='') t = [t]" by (rule split_none)
  then have p: "parseTuple t = \<lparr>pkey = t, pvalue = JUndefined\<rparr>"
    by (simp add: parseTuple_def)
  from assms(8,9) have "resolveOverride opts t = JUndefined"
    by (rule resolveOverride_absent)
  with p have e: "emitParameter opts (parseTuple t) = t @ ''=undefined,''"
    by (simp add: emitParameter_def coalesce_def)
  have "split (CHR '','') s
        = take i (split (CHR '','') s) @ t # drop (Suc i) (split (CHR '','') s)"
    using assms(5,6) id_take_nth_drop by blast
  then have "map (\<lambda>u. emitParameter opts (parseTuple u)) (split (CHR '','') s)
        = map (\<lambda>u. emitParameter opts (parseTuple u)) (take i (split (CHR '','') s))
          @ emitParameter opts (parseTuple t)
          # map (\<lambda>u. emitParameter opts (parseTuple u)) (drop (Suc i) (split (CHR '','') s))"
    by (metis list.simps(9) map_append)
  then have "newOverrides opts s
        = concat (map (\<lambda>u. emitParameter opts (parseTuple u)) (take i (split (CHR '','') s)))
          @ t @ ''=undefined,''
          @ concat (map (\<lambda>u. emitParameter opts (parseTuple u))
                      (drop (Suc i) (split (CHR '','') s)))"
    by (simp only: newOverrides_concat concat_append concat.simps e append_assoc)
  with Configuration_deploy [OF assms(1-4), of opts] e show ?thesis
    by (simp only: simp_thms)
qed

theorem token_without_separator_emits_undefined_witness:
  "isDeploy exDeploy
   \<and> Configuration exDeploy
       = Some [(''template'', ''stack.yml''),
               (''parameter-overrides'', ''stage=dev,LAUNCH_OPTIONS_tag=x,flag'')]
   \<and> split (CHR '','') ''stage=dev,LAUNCH_OPTIONS_tag=x,flag''
       = [''stage=dev'', ''LAUNCH_OPTIONS_tag=x'', ''flag'']
   \<and> CHR ''='' \<notin> set ''flag''
   \<and> \<not> matchesOption exOptions ''flag''
   \<and> \<not> matchesParameter exOptions ''flag''
   \<and> emitParameter exOptions (parseTuple ''flag'') = ''flag=undefined,''
   \<and> Configuration (mapParametersToAction exOptions exDeploy)
       = Some [(''template'', ''stack.yml''),
               (''parameter-overrides'',
                ''stage=prod,LAUNCH_OPTIONS_tag=[object Object],flag=undefined'')]"
proof -
  have d: "isDeploy exDeploy"
    by (simp add: isDeploy_def exDeploy_def startsWith_def)
  have c: "Configuration exDeploy
           = Some [(''template'', ''stack.yml''),
                   (''parameter-overrides'', ''stage=dev,LAUNCH_OPTIONS_tag=x,flag'')]"
    by (simp add: exDeploy_def)
  have m: "map_of [(''template'', ''stack.yml''),
                   (''parameter-overrides'', ''stage=dev,LAUNCH_OPTIONS_tag=x,flag'')]
             ''parameter-overrides''
           = Some ''stage=dev,LAUNCH_OPTIONS_tag=x,flag''"
    by simp
  have n: "''stage=dev,LAUNCH_OPTIONS_tag=x,flag'' \<noteq> []"
    by simp
  have sp: "split (CHR '','') ''stage=dev,LAUNCH_OPTIONS_tag=x,flag''
            = [''stage=dev'', ''LAUNCH_OPTIONS_tag=x'', ''flag'']"
    by simp
  have i: "2 < length (split (CHR '','') ''stage=dev,LAUNCH_OPTIONS_tag=x,flag'')"
    by (simp add: sp)
  have t: "split (CHR '','') ''stage=dev,LAUNCH_OPTIONS_tag=x,flag'' ! 2 = ''flag''"
    by (simp add: sp)
  have e: "CHR ''='' \<notin> set ''flag''"
    by simp
  have mo: "\<not> matchesOption exOptions ''flag''"
    by (simp add: matchesOption_def optionList_def exOptions_def)
  have mp: "\<not> matchesParameter exOptions ''flag''"
    by (simp add: matchesParameter_def exOptions_def OPTIONS_PREFIX_def)
  have e0: "emitParameter exOptions (parseTuple ''stage=dev'') = ''stage=prod,''"
    by (simp add: emitParameter_def parseTuple_def resolveOverride_def findValue_def
        coalesce_def exOptions_def)
  have e1: "emitParameter exOptions (parseTuple ''LAUNCH_OPTIONS_tag=x'')
            = ''LAUNCH_OPTIONS_tag=[object Object],''"
    by (simp add: emitParameter_def parseTuple_def resolveOverride_def findValue_def
        findEntry_def coalesce_def exOptions_def OPTIONS_PREFIX_def)
  have tk: "take 2 [''stage=dev'', ''LAUNCH_OPTIONS_tag=x'', ''flag'']
            = [''stage=dev'', ''LAUNCH_OPTIONS_tag=x'']"
    by simp
  have dr: "drop (Suc 2) [''stage=dev'', ''LAUNCH_OPTIONS_tag=x'', ''flag''] = []"
    by simp
  from token_without_separator_emits_undefined [OF d c m n i t e mo mp]
  have "emitParameter exOptions (parseTuple ''flag'') = ''flag=undefined,''
        \<and> Configuration (mapParametersToAction exOptions exDeploy)
            = Some [(''template'', ''stack.yml''),
                    (''parameter-overrides'',
                     ''stage=prod,LAUNCH_OPTIONS_tag=[object Object],flag=undefined'')]"
    by (simp add: sp tk dr e0 e1)
  with d c sp e mo mp show ?thesis by simp
qed

end
